theory Spec2Isabelle
  imports Complex_Main "HOL-Library.Word"
begin

section \<open>Data model (types/index.ts)\<close>

text \<open>
  A JavaScript string is a sequence of UTF-16 code units, and \<open>length\<close>, \<open>substring\<close> and
  \<open>trim\<close> work on code units. Strings that come from outside the program (environment
  values, titles, descriptions, file names, identifiers returned by an API) are therefore
  lists of 16-bit words. The program's own ASCII identifiers (names of environment
  variables, property names it looks up) are HOL strings.
\<close>

type_synonym jsstring = "16 word list"

datatype Platform = YouTube | TikTok | Instagram | X

text \<open>
  \<open>UploadStatus\<close>: one flag per platform. The fields are \<open>youtube\<close>, \<open>tiktok\<close>,
  \<open>instagram\<close> and \<open>x\<close> in the source; they carry the prefix \<open>us_\<close> here, since the
  same names are fields of the configuration as well. A flag is read by its truthiness
  only (\<open>if (metadata.upload_status.youtube)\<close>) and written as \<open>true\<close> only, so it is a
  \<open>bool\<close>.
\<close>

record UploadStatus =
  us_youtube :: bool
  us_tiktok :: bool
  us_instagram :: bool
  us_x :: bool

text \<open>
  The message texts of the program are Japanese literals, some with an interpolated
  value. Each is one constructor here, with the interpolated value as its argument;
  \<open>Text\<close> is a message that came from outside (the message of a library's error).
\<close>

datatype message =
    Text jsstring
  | MissingRequiredEnv string
  | JsonFormatTitle
  | JsonFormatDescription
  | JsonFormatTags
  | JsonFormatUploadStatus
  | NullPropertyRead
  | TikTokTokenFailed jsstring
  | TikTokInitFailed jsstring
  | IgContainerError
  | IgContainerTimeout

text \<open>
  What a \<open>throw\<close> carries: an \<open>Error\<close> object with its message, or some other value,
  given by its \<open>String(...)\<close> rendering. Each \<open>catch\<close> of the publishers computes
  \<open>error instanceof Error ? error.message : String(error)\<close>.
\<close>

datatype thrown = JsError message | NonError jsstring

fun errorMessage :: "thrown \<Rightarrow> message" where
  "errorMessage (JsError m) = m"
| "errorMessage (NonError s) = Text s"

text \<open>The outcome of a call that may throw.\<close>

datatype 'a outcome = Returns 'a | Throws thrown

record UploadResult =
  platform :: Platform
  success :: bool
  skipped :: bool
  error :: "message option"

text \<open>
  Sequencing of calls that may throw: the second runs on the value of the first, and an
  exception of the first is the exception of the whole (statements in sequence, inside
  one \<open>try\<close> block or none).
\<close>

definition andThen :: "'a outcome \<Rightarrow> ('a \<Rightarrow> 'b outcome) \<Rightarrow> 'b outcome" where
  "andThen m f = (case m of Throws e \<Rightarrow> Throws e | Returns v \<Rightarrow> f v)"

section \<open>Overall success (index.ts, isAllSuccess)\<close>

text \<open>
  The \<open>for ... of\<close> loop over the results: \<open>continue\<close> goes on with the rest of the list,
  \<open>return false\<close> leaves the loop, and the end of the list returns \<open>true\<close>.
\<close>

fun isAllSuccess :: "UploadResult list \<Rightarrow> bool \<Rightarrow> bool" where
  "isAllSuccess [] isXEnabled = True"
| "isAllSuccess (result # results) isXEnabled =
     (if skipped result then isAllSuccess results isXEnabled
      else if platform result = X \<and> \<not> isXEnabled then isAllSuccess results isXEnabled
      else if \<not> success result then False
      else isAllSuccess results isXEnabled)"

section \<open>Parsed JSON values and the metadata record (drive.ts, fetchJsonContent)\<close>

text \<open>
  What \<open>JSON.parse\<close> returns: null, a boolean, a number (a finite double, read here as
  the real number it denotes), a string, an array or an object. An object is the list of
  its own properties; \<open>getProp\<close> is the property read \<open>data.key\<close>, with \<open>None\<close> for
  \<open>undefined\<close>. Reading a property of \<open>null\<close> throws a TypeError; reading one of the four
  names the program uses on a boolean, number, string or array gives \<open>undefined\<close>.
\<close>

datatype jsval =
    JNull
  | JBool bool
  | JNumber real
  | JString jsstring
  | JArray "jsval list"
  | JObject "(string \<times> jsval) list"

fun getProp :: "jsval \<Rightarrow> string \<Rightarrow> jsval option outcome" where
  "getProp JNull key = Throws (JsError NullPropertyRead)"
| "getProp (JObject props) key = Returns (map_of props key)"
| "getProp v key = Returns None"

text \<open>Truthiness of a value that may be \<open>undefined\<close>.\<close>

fun truthy :: "jsval option \<Rightarrow> bool" where
  "truthy None = False"
| "truthy (Some JNull) = False"
| "truthy (Some (JBool b)) = b"
| "truthy (Some (JNumber r)) = (r \<noteq> 0)"
| "truthy (Some (JString s)) = (s \<noteq> [])"
| "truthy (Some (JArray vs)) = True"
| "truthy (Some (JObject props)) = True"

fun typeofString :: "jsval option \<Rightarrow> bool" where
  "typeofString (Some (JString s)) = True"
| "typeofString v = False"

fun isArray :: "jsval option \<Rightarrow> bool" where
  "isArray (Some (JArray vs)) = True"
| "isArray v = False"

text \<open>\<open>typeof v === 'object'\<close>: null, arrays and objects.\<close>

fun typeofObject :: "jsval option \<Rightarrow> bool" where
  "typeofObject (Some JNull) = True"
| "typeofObject (Some (JArray vs)) = True"
| "typeofObject (Some (JObject props)) = True"
| "typeofObject v = False"

record PostMetadata =
  title :: jsstring
  description :: jsstring
  tags :: "jsval list"
  upload_status :: UploadStatus

text \<open>
  The flag \<open>upload_status.key\<close> of a validated record, as the publishers read it: the
  truthiness of the property (a missing property is \<open>undefined\<close>, which is falsy).
\<close>

definition statusFlag :: "jsval \<Rightarrow> string \<Rightarrow> bool" where
  "statusFlag us key = (case getProp us key of Returns v \<Rightarrow> truthy v | Throws e \<Rightarrow> False)"

text \<open>
  \<open>fetchJsonContent\<close> after \<open>JSON.parse\<close>: the four checks in the source's order, each
  throwing its own format error, then \<open>return data\<close>. The returned object is read through
  the type \<open>PostMetadata\<close> from then on: \<open>asString\<close>, \<open>asArray\<close> and \<open>asUploadStatus\<close> are
  that reading, on values that passed the checks.
\<close>

fun asString :: "jsval option \<Rightarrow> jsstring" where
  "asString (Some (JString s)) = s"
| "asString v = []"

fun asArray :: "jsval option \<Rightarrow> jsval list" where
  "asArray (Some (JArray vs)) = vs"
| "asArray v = []"

fun asUploadStatus :: "jsval option \<Rightarrow> UploadStatus" where
  "asUploadStatus (Some us) =
     \<lparr>us_youtube = statusFlag us ''youtube'', us_tiktok = statusFlag us ''tiktok'',
      us_instagram = statusFlag us ''instagram'', us_x = statusFlag us ''x''\<rparr>"
| "asUploadStatus None =
     \<lparr>us_youtube = False, us_tiktok = False, us_instagram = False, us_x = False\<rparr>"

definition validateMetadata :: "jsval \<Rightarrow> PostMetadata outcome" where
  "validateMetadata data =
     andThen (getProp data ''title'') (\<lambda>t.
       if \<not> truthy t \<or> \<not> typeofString t then Throws (JsError JsonFormatTitle)
       else andThen (getProp data ''description'') (\<lambda>d.
         if \<not> truthy d \<or> \<not> typeofString d then Throws (JsError JsonFormatDescription)
         else andThen (getProp data ''tags'') (\<lambda>g.
           if \<not> isArray g then Throws (JsError JsonFormatTags)
           else andThen (getProp data ''upload_status'') (\<lambda>u.
             if \<not> truthy u \<or> \<not> typeofObject u then Throws (JsError JsonFormatUploadStatus)
             else Returns
               \<lparr>title = asString t, description = asString d, tags = asArray g,
                upload_status = asUploadStatus u\<rparr>))))"

text \<open>
  \<open>fetchJsonContent\<close>: the download of the file and \<open>JSON.parse\<close> either give a value or
  throw (a network error, a SyntaxError); then the validation.
\<close>

definition fetchJsonContent :: "jsval outcome \<Rightarrow> PostMetadata outcome" where
  "fetchJsonContent response = andThen response validateMetadata"

section \<open>Configuration (config/env.ts)\<close>

text \<open>
  \<open>process.env\<close> maps a variable's name to its value, or to \<open>undefined\<close>. \<open>trim\<close> removes
  the white space and line terminators of ECMAScript from both ends of a string.
\<close>

type_synonym environment = "string \<Rightarrow> jsstring option"

definition isWhiteSpace :: "16 word \<Rightarrow> bool" where
  "isWhiteSpace c \<longleftrightarrow>
     c = 0x0009 \<or> c = 0x000A \<or> c = 0x000B \<or> c = 0x000C \<or> c = 0x000D \<or> c = 0x0020
     \<or> c = 0x00A0 \<or> c = 0x1680 \<or> (0x2000 \<le> c \<and> c \<le> 0x200A) \<or> c = 0x2028 \<or> c = 0x2029
     \<or> c = 0x202F \<or> c = 0x205F \<or> c = 0x3000 \<or> c = 0xFEFF"

definition trim :: "jsstring \<Rightarrow> jsstring" where
  "trim s = rev (dropWhile isWhiteSpace (rev (dropWhile isWhiteSpace s)))"

text \<open>
  Lines of the logger at the levels WARN and ERROR that the claims are about; the texts
  are Japanese literals, one constructor each.
\<close>

datatype log_text =
    XKeysPartiallySet
  | SomePlatformFailed
  | FilePairFailed jsstring thrown
  | FatalError thrown

definition getRequiredEnv :: "environment \<Rightarrow> string \<Rightarrow> jsstring outcome" where
  "getRequiredEnv env key =
     (case env key of
        None \<Rightarrow> Throws (JsError (MissingRequiredEnv key))
      | Some v \<Rightarrow>
          if v = [] \<or> trim v = [] then Throws (JsError (MissingRequiredEnv key))
          else Returns (trim v))"

definition getOptionalEnv :: "environment \<Rightarrow> string \<Rightarrow> jsstring option" where
  "getOptionalEnv env key =
     (case env key of
        None \<Rightarrow> None
      | Some v \<Rightarrow> if v = [] \<or> trim v = [] then None else Some (trim v))"

record DriveConfig =
  credentialsJson :: jsstring
  pendingFolderId :: jsstring
  doneFolderId :: jsstring

record YouTubeConfig =
  yt_clientId :: jsstring
  yt_clientSecret :: jsstring
  yt_refreshToken :: jsstring

record TikTokConfig =
  tt_clientKey :: jsstring
  tt_clientSecret :: jsstring
  tt_refreshToken :: jsstring

record InstagramConfig =
  ig_accessToken :: jsstring
  ig_accountId :: jsstring

record XConfig =
  apiKey :: jsstring
  apiSecret :: jsstring
  accessToken :: jsstring
  accessTokenSecret :: jsstring

record MailConfig =
  mail_user :: jsstring
  mail_pass :: jsstring
  mail_to :: jsstring

record AppConfig =
  drive :: DriveConfig
  youtube :: YouTubeConfig
  tiktok :: TikTokConfig
  instagram :: InstagramConfig
  x :: "XConfig option"
  mail :: MailConfig
  isXEnabled :: bool

definition loadDriveConfig :: "environment \<Rightarrow> DriveConfig outcome" where
  "loadDriveConfig env =
     andThen (getRequiredEnv env ''GDRIVE_CREDENTIALS_JSON'') (\<lambda>c.
     andThen (getRequiredEnv env ''GDRIVE_PENDING_FOLDER_ID'') (\<lambda>p.
     andThen (getRequiredEnv env ''GDRIVE_DONE_FOLDER_ID'') (\<lambda>d.
       Returns \<lparr>credentialsJson = c, pendingFolderId = p, doneFolderId = d\<rparr>)))"

definition loadYouTubeConfig :: "environment \<Rightarrow> YouTubeConfig outcome" where
  "loadYouTubeConfig env =
     andThen (getRequiredEnv env ''YOUTUBE_CLIENT_ID'') (\<lambda>i.
     andThen (getRequiredEnv env ''YOUTUBE_CLIENT_SECRET'') (\<lambda>s.
     andThen (getRequiredEnv env ''YOUTUBE_REFRESH_TOKEN'') (\<lambda>r.
       Returns \<lparr>yt_clientId = i, yt_clientSecret = s, yt_refreshToken = r\<rparr>)))"

definition loadTikTokConfig :: "environment \<Rightarrow> TikTokConfig outcome" where
  "loadTikTokConfig env =
     andThen (getRequiredEnv env ''TIKTOK_CLIENT_KEY'') (\<lambda>k.
     andThen (getRequiredEnv env ''TIKTOK_CLIENT_SECRET'') (\<lambda>s.
     andThen (getRequiredEnv env ''TIKTOK_REFRESH_TOKEN'') (\<lambda>r.
       Returns \<lparr>tt_clientKey = k, tt_clientSecret = s, tt_refreshToken = r\<rparr>)))"

definition loadInstagramConfig :: "environment \<Rightarrow> InstagramConfig outcome" where
  "loadInstagramConfig env =
     andThen (getRequiredEnv env ''IG_ACCESS_TOKEN'') (\<lambda>t.
     andThen (getRequiredEnv env ''IG_ACCOUNT_ID'') (\<lambda>a.
       Returns \<lparr>ig_accessToken = t, ig_accountId = a\<rparr>))"

text \<open>
  \<open>loadXConfig\<close>: the four optional values; all four set gives the configuration, anything
  else gives \<open>null\<close>, with one WARN line when at least one of them is set. The second
  component is what the function logged at WARN level.
\<close>

definition loadXConfig :: "environment \<Rightarrow> XConfig option \<times> log_text list" where
  "loadXConfig env =
     (let k = getOptionalEnv env ''X_API_KEY'';
          s = getOptionalEnv env ''X_API_SECRET'';
          t = getOptionalEnv env ''X_ACCESS_TOKEN'';
          ts = getOptionalEnv env ''X_ACCESS_TOKEN_SECRET''
      in case (k, s, t, ts) of
           (Some k', Some s', Some t', Some ts') \<Rightarrow>
             (Some \<lparr>apiKey = k', apiSecret = s', accessToken = t', accessTokenSecret = ts'\<rparr>, [])
         | _ \<Rightarrow>
             (let partialKeys = filter (\<lambda>v. v \<noteq> None) [k, s, t, ts]
              in (None, if length partialKeys > 0 then [XKeysPartiallySet] else [])))"

definition loadMailConfig :: "environment \<Rightarrow> MailConfig outcome" where
  "loadMailConfig env =
     andThen (getRequiredEnv env ''MAIL_USER'') (\<lambda>u.
     andThen (getRequiredEnv env ''MAIL_PASS'') (\<lambda>p.
     andThen (getRequiredEnv env ''MAIL_TO'') (\<lambda>t.
       Returns \<lparr>mail_user = u, mail_pass = p, mail_to = t\<rparr>)))"

text \<open>
  \<open>loadConfig\<close>: the six loaders in the source's order; the first missing required
  variable throws. The second component is what was logged at WARN level up to the
  return or the throw (\<open>loadXConfig\<close> runs after the Instagram loader and before the
  mail loader).
\<close>

definition loadConfig :: "environment \<Rightarrow> AppConfig outcome \<times> log_text list" where
  "loadConfig env =
     (case loadDriveConfig env of Throws e \<Rightarrow> (Throws e, []) | Returns dr \<Rightarrow>
     (case loadYouTubeConfig env of Throws e \<Rightarrow> (Throws e, []) | Returns yt \<Rightarrow>
     (case loadTikTokConfig env of Throws e \<Rightarrow> (Throws e, []) | Returns tt \<Rightarrow>
     (case loadInstagramConfig env of Throws e \<Rightarrow> (Throws e, []) | Returns ig \<Rightarrow>
     (case loadXConfig env of (xc, warnings) \<Rightarrow>
     (case loadMailConfig env of Throws e \<Rightarrow> (Throws e, warnings) | Returns ml \<Rightarrow>
        (Returns \<lparr>drive = dr, youtube = yt, tiktok = tt, instagram = ig, x = xc,
                  mail = ml, isXEnabled = (xc \<noteq> None)\<rparr>, warnings)))))))"

section \<open>The outside world of one file pair\<close>

text \<open>
  Every call that leaves the process (Google Drive, the four platforms, the file system,
  SMTP) either returns or throws; which of the two, and with what value, is not decided
  by the program. The record \<open>apis\<close> gives the outcome of each such call made while one
  file pair is processed, so that every theorem below holds for all of them.
  \<^item> \<open>drive_download\<close>: \<open>downloadVideo\<close> (the local path).
  \<^item> \<open>drive_update p\<close>: the \<open>updateJsonStatus\<close> call that follows the success of platform \<open>p\<close>.
  \<^item> \<open>drive_share\<close>: \<open>getVideoShareLink\<close> (the link).
  \<^item> \<open>drive_move_video\<close>, \<open>drive_move_json\<close>: the two \<open>files.update\<close> calls of
    \<open>moveFilesToDone\<close>.
  \<^item> \<open>yt_insert\<close>: the body of the \<open>try\<close> of \<open>uploadToYouTube\<close> up to \<open>videos.insert\<close>.
  \<^item> \<open>tt_token\<close>, \<open>tt_file\<close>, \<open>tt_init\<close>, \<open>tt_put\<close>: the token request, the two file reads,
    the initialisation request and the upload of \<open>uploadToTikTok\<close>.
  \<^item> \<open>ig_container\<close>, \<open>ig_status i\<close>, \<open>ig_publish\<close>: the container request, the status
    request of the loop's round \<open>i\<close> and the publish request of \<open>uploadToInstagram\<close>.
  \<^item> \<open>x_uploadMedia\<close>, \<open>x_tweet text\<close>: the media upload and the tweet of \<open>uploadToX\<close>.
  An exception of a client constructor or of reading a field of a response counts as an
  exception of the call it belongs to.
\<close>

datatype ig_status_code = FINISHED | ERROR | OtherStatus

record tiktok_token_response =
  access_token :: "jsstring option"
  token_data :: jsstring

record tiktok_init_response =
  error_code_ok :: bool
  init_error :: jsstring

record apis =
  drive_download :: "jsstring outcome"
  drive_update :: "Platform \<Rightarrow> unit outcome"
  drive_share :: "jsstring outcome"
  drive_move_video :: "unit outcome"
  drive_move_json :: "unit outcome"
  yt_insert :: "jsstring outcome"
  tt_token :: "tiktok_token_response outcome"
  tt_file :: "nat outcome"
  tt_init :: "tiktok_init_response outcome"
  tt_put :: "unit outcome"
  ig_container :: "jsstring outcome"
  ig_status :: "nat \<Rightarrow> ig_status_code outcome"
  ig_publish :: "jsstring outcome"
  x_uploadMedia :: "jsstring outcome"
  x_tweet :: "jsstring \<Rightarrow> jsstring outcome"

section \<open>The publishers (services/youtube.ts, tiktok.ts, instagram.ts, x.ts)\<close>

text \<open>
  The three results every publisher builds: the skip of a platform already marked done,
  the last statement of the \<open>try\<close> block, and the \<open>catch\<close> clause.
\<close>

definition alreadyUploaded :: "Platform \<Rightarrow> UploadResult" where
  "alreadyUploaded p = \<lparr>platform = p, success = True, skipped = True, error = None\<rparr>"

definition tryCatch :: "Platform \<Rightarrow> 'a outcome \<Rightarrow> UploadResult" where
  "tryCatch p body =
     (case body of
        Returns v \<Rightarrow> \<lparr>platform = p, success = True, skipped = False, error = None\<rparr>
      | Throws e \<Rightarrow>
          \<lparr>platform = p, success = False, skipped = False, error = Some (errorMessage e)\<rparr>)"

text \<open>
  Each publisher is the skip test followed by \<open>try { ... } catch\<close>; the body of its \<open>try\<close>
  block, up to the \<open>return\<close> that ends it, is the function \<open>...Attempt\<close> here, which
  completes or throws.
\<close>

definition youtubeAttempt :: "apis \<Rightarrow> jsstring outcome" where
  "youtubeAttempt w = yt_insert w"

definition uploadToYouTube :: "apis \<Rightarrow> PostMetadata \<Rightarrow> UploadResult" where
  "uploadToYouTube w metadata =
     (if us_youtube (upload_status metadata) then alreadyUploaded YouTube
      else tryCatch YouTube (youtubeAttempt w))"

definition getAccessToken :: "apis \<Rightarrow> jsstring outcome" where
  "getAccessToken w =
     andThen (tt_token w) (\<lambda>response.
       case access_token response of
         Some t \<Rightarrow> Returns t
       | None \<Rightarrow> Throws (JsError (TikTokTokenFailed (token_data response))))"

definition tiktokAttempt :: "apis \<Rightarrow> unit outcome" where
  "tiktokAttempt w =
     andThen (getAccessToken w) (\<lambda>accessToken.
     andThen (tt_file w) (\<lambda>fileSize.
     andThen (tt_init w) (\<lambda>initResponse.
       if \<not> error_code_ok initResponse
       then Throws (JsError (TikTokInitFailed (init_error initResponse)))
       else tt_put w)))"

definition uploadToTikTok :: "apis \<Rightarrow> PostMetadata \<Rightarrow> UploadResult" where
  "uploadToTikTok w metadata =
     (if us_tiktok (upload_status metadata) then alreadyUploaded TikTok
      else tryCatch TikTok (tiktokAttempt w))"

definition MAX_STATUS_CHECKS :: nat where
  "MAX_STATUS_CHECKS = 60"

text \<open>
  The loop \<open>for (let i = 0; i < MAX_STATUS_CHECKS; i++)\<close> of \<open>uploadToInstagram\<close>, from round
  \<open>i\<close> with \<open>n\<close> rounds left: it returns the value of \<open>isReady\<close> at the end of the loop, or
  throws.
\<close>

fun pollStatus :: "(nat \<Rightarrow> ig_status_code outcome) \<Rightarrow> nat \<Rightarrow> nat \<Rightarrow> bool outcome" where
  "pollStatus status i 0 = Returns False"
| "pollStatus status i (Suc n) =
     (case status i of
        Throws e \<Rightarrow> Throws e
      | Returns FINISHED \<Rightarrow> Returns True
      | Returns ERROR \<Rightarrow> Throws (JsError IgContainerError)
      | Returns OtherStatus \<Rightarrow> pollStatus status (Suc i) n)"

definition instagramAttempt :: "apis \<Rightarrow> jsstring outcome" where
  "instagramAttempt w =
     andThen (ig_container w) (\<lambda>containerId.
     andThen (pollStatus (ig_status w) 0 MAX_STATUS_CHECKS) (\<lambda>isReady.
       if \<not> isReady then Throws (JsError IgContainerTimeout)
       else ig_publish w))"

definition uploadToInstagram :: "apis \<Rightarrow> PostMetadata \<Rightarrow> UploadResult" where
  "uploadToInstagram w metadata =
     (if us_instagram (upload_status metadata) then alreadyUploaded Instagram
      else tryCatch Instagram (instagramAttempt w))"

text \<open>The text of the tweet: \<open>"\n\n"\<close> is two line feeds, \<open>"..."\<close> three full stops.\<close>

definition tweetText :: "PostMetadata \<Rightarrow> jsstring" where
  "tweetText metadata = title metadata @ [0x0A, 0x0A] @ description metadata"

definition truncatedText :: "PostMetadata \<Rightarrow> jsstring" where
  "truncatedText metadata =
     (if length (tweetText metadata) > 280
      then take 277 (tweetText metadata) @ [0x2E, 0x2E, 0x2E]
      else tweetText metadata)"

definition xAttempt :: "apis \<Rightarrow> PostMetadata \<Rightarrow> jsstring outcome" where
  "xAttempt w metadata =
     andThen (x_uploadMedia w) (\<lambda>mediaId. x_tweet w (truncatedText metadata))"

definition uploadToX :: "apis \<Rightarrow> XConfig option \<Rightarrow> bool \<Rightarrow> PostMetadata \<Rightarrow> UploadResult" where
  "uploadToX w config enabled metadata =
     (if \<not> enabled \<or> config = None
      then \<lparr>platform = X, success = False, skipped = True, error = None\<rparr>
      else if us_x (upload_status metadata) then alreadyUploaded X
      else tryCatch X (xAttempt w metadata))"

section \<open>The driver of one file pair (index.ts, the body of the loop of main)\<close>

record FilePair =
  videoFileId :: jsstring
  jsonFileId :: jsstring
  videoFileName :: jsstring
  jsonFileName :: jsstring
  metadata :: PostMetadata

text \<open>
  \<open>BatchResult\<close>; its fields \<open>filePair\<close>, \<open>results\<close>, \<open>allSuccess\<close> and \<open>isXEnabled\<close> carry the
  prefix \<open>batch_\<close>, since the driver's local variables have the same names.
\<close>

record BatchResult =
  batch_filePair :: FilePair
  batch_results :: "UploadResult list"
  batch_allSuccess :: bool
  batch_isXEnabled :: bool

text \<open>
  The trace of a run: the calls main makes to its collaborators, in the order it makes
  them, with the arguments that matter (a call is in the trace whether it returns or
  throws); the two \<open>files.update\<close> requests of \<open>moveFilesToDone\<close>, which are the only
  requests of the program that move a file; the WARN and ERROR lines that main and the
  configuration loader write; and the exit of the process.
\<close>

datatype event =
    DownloadVideo jsstring
  | Publish Platform PostMetadata
  | UpdateJsonStatus jsstring PostMetadata
  | GetVideoShareLink jsstring
  | MoveFilesToDone jsstring jsstring
  | DriveMoveToDone jsstring
  | SendResultEmail BatchResult
  | LogWarn log_text
  | LogError log_text
  | CleanupTmpFiles
  | ProcessExit nat

text \<open>
  The local variables of the loop body that change: \<open>currentMetadata\<close> (a shallow copy of
  \<open>filePair.metadata\<close>: its \<open>upload_status\<close> is the same object as that of the file pair,
  which nothing reads after the copy), \<open>results\<close>, and \<open>allSuccess\<close> (\<open>None\<close> until Phase 4
  computes it); and the trace so far.
\<close>

record run_state =
  currentMetadata :: PostMetadata
  results :: "UploadResult list"
  allSuccess :: "bool option"
  trace :: "event list"

text \<open>
  A statement of the loop body maps the state to the state after it, and either completes
  or throws; \<open>seq\<close> is two statements in sequence: the second is skipped when the first
  throws.
\<close>

type_synonym statement = "run_state \<Rightarrow> unit outcome \<times> run_state"

definition seq :: "statement \<Rightarrow> statement \<Rightarrow> statement" where
  "seq f g st = (case f st of (Throws e, st') \<Rightarrow> (Throws e, st') | (Returns u, st') \<Rightarrow> g st')"

definition call :: "event \<Rightarrow> 'a outcome \<Rightarrow> statement" where
  "call ev out st =
     ((case out of Throws e \<Rightarrow> Throws e | Returns v \<Rightarrow> Returns ()),
      st\<lparr>trace := trace st @ [ev]\<rparr>)"

definition logWarn :: "log_text \<Rightarrow> statement" where
  "logWarn t st = (Returns (), st\<lparr>trace := trace st @ [LogWarn t]\<rparr>)"

text \<open>The call of the publisher of platform \<open>p\<close>, with the arguments main gives it.\<close>

definition publish :: "apis \<Rightarrow> AppConfig \<Rightarrow> Platform \<Rightarrow> PostMetadata \<Rightarrow> UploadResult" where
  "publish w config p md =
     (case p of
        YouTube \<Rightarrow> uploadToYouTube w md
      | TikTok \<Rightarrow> uploadToTikTok w md
      | Instagram \<Rightarrow> uploadToInstagram w md
      | X \<Rightarrow> uploadToX w (x config) (isXEnabled config) md)"

text \<open>\<open>currentMetadata.upload_status.p = true\<close>.\<close>

definition markUploaded :: "Platform \<Rightarrow> UploadStatus \<Rightarrow> UploadStatus" where
  "markUploaded p us =
     (case p of
        YouTube \<Rightarrow> us\<lparr>us_youtube := True\<rparr>
      | TikTok \<Rightarrow> us\<lparr>us_tiktok := True\<rparr>
      | Instagram \<Rightarrow> us\<lparr>us_instagram := True\<rparr>
      | X \<Rightarrow> us\<lparr>us_x := True\<rparr>)"

definition statusOf :: "Platform \<Rightarrow> UploadStatus \<Rightarrow> bool" where
  "statusOf p us =
     (case p of
        YouTube \<Rightarrow> us_youtube us
      | TikTok \<Rightarrow> us_tiktok us
      | Instagram \<Rightarrow> us_instagram us
      | X \<Rightarrow> us_x us)"

text \<open>
  One of the four blocks 3-1 to 3-4 of Phase 3 (lines 97-102, 105-110, 114-119 and
  122-127 of index.ts), which differ in the platform only: call the publisher, push its
  result, and when it reports success without skip, set the platform's flag and call
  \<open>updateJsonStatus\<close> with the updated metadata, which may throw.
\<close>

definition uploadStep :: "apis \<Rightarrow> AppConfig \<Rightarrow> FilePair \<Rightarrow> Platform \<Rightarrow> statement" where
  "uploadStep w config filePair p st =
     (let result = publish w config p (currentMetadata st);
          st1 = st\<lparr>results := results st @ [result],
                   trace := trace st @ [Publish p (currentMetadata st)]\<rparr>
      in if success result \<and> \<not> skipped result
         then (let md = (currentMetadata st1)
                      \<lparr>upload_status := markUploaded p (upload_status (currentMetadata st1))\<rparr>
               in call (UpdateJsonStatus (jsonFileId filePair) md) (drive_update w p)
                    (st1\<lparr>currentMetadata := md\<rparr>))
         else (Returns (), st1))"

text \<open>\<open>moveFilesToDone\<close> (drive.ts): the video file first, then the JSON file.\<close>

definition moveFilesToDone :: "apis \<Rightarrow> FilePair \<Rightarrow> statement" where
  "moveFilesToDone w filePair =
     seq (call (MoveFilesToDone (videoFileId filePair) (jsonFileId filePair)) (Returns ()))
    (seq (call (DriveMoveToDone (videoFileId filePair)) (drive_move_video w))
         (call (DriveMoveToDone (jsonFileId filePair)) (drive_move_json w)))"

text \<open>
  \<open>sendResultEmail\<close> (mail.ts) catches every exception of its body, so the call always
  returns.
\<close>

definition sendResultEmail :: "BatchResult \<Rightarrow> statement" where
  "sendResultEmail batchResult = call (SendResultEmail batchResult) (Returns ())"

text \<open>Phase 4: the overall success, the move or the warning, and the notification.\<close>

definition phase4 :: "apis \<Rightarrow> AppConfig \<Rightarrow> FilePair \<Rightarrow> statement" where
  "phase4 w config filePair st =
     (let ok = isAllSuccess (results st) (isXEnabled config);
          batchResult =
            \<lparr>batch_filePair = filePair\<lparr>metadata := currentMetadata st\<rparr>,
             batch_results = results st, batch_allSuccess = ok,
             batch_isXEnabled = isXEnabled config\<rparr>
      in seq (if ok then moveFilesToDone w filePair else logWarn SomePlatformFailed)
             (sendResultEmail batchResult)
           (st\<lparr>allSuccess := Some ok\<rparr>))"

text \<open>The body of the inner \<open>try\<close>, from the download to the notification.\<close>

definition initialState :: "FilePair \<Rightarrow> run_state" where
  "initialState filePair =
     \<lparr>currentMetadata = metadata filePair, results = [], allSuccess = None, trace = []\<rparr>"

definition runFilePair :: "apis \<Rightarrow> AppConfig \<Rightarrow> FilePair \<Rightarrow> unit outcome \<times> run_state" where
  "runFilePair w config filePair =
     seq (call (DownloadVideo (videoFileId filePair)) (drive_download w))
    (seq (uploadStep w config filePair YouTube)
    (seq (uploadStep w config filePair TikTok)
    (seq (call (GetVideoShareLink (videoFileId filePair)) (drive_share w))
    (seq (uploadStep w config filePair Instagram)
    (seq (uploadStep w config filePair X)
         (phase4 w config filePair))))))
       (initialState filePair)"

text \<open>
  One round of the loop: the inner \<open>try\<close> with its \<open>catch\<close>, which logs the name of the
  video file and the exception, and lets the loop go on.
\<close>

definition processFilePair :: "apis \<Rightarrow> AppConfig \<Rightarrow> FilePair \<Rightarrow> event list" where
  "processFilePair w config filePair =
     (case runFilePair w config filePair of
        (Returns u, st) \<Rightarrow> trace st
      | (Throws e, st) \<Rightarrow> trace st @ [LogError (FilePairFailed (videoFileName filePair) e)])"

section \<open>The feed (drive.ts, fetchFilePairs) and main (index.ts)\<close>

text \<open>
  A file of a Drive listing, with its \<open>id\<close> and \<open>name\<close>. The base name of a video is its
  name without a final \<open>.mp4\<close>, that of a metadata file its name without a final \<open>.json\<close>,
  in any mix of upper and lower case (\<open>replace(/\.mp4$/i, '')\<close>).
\<close>

record drive_file =
  file_id :: jsstring
  file_name :: jsstring

fun isDotMp4 :: "jsstring \<Rightarrow> bool" where
  "isDotMp4 [a, b, c, d] \<longleftrightarrow>
     a = 0x2E \<and> (b = 0x6D \<or> b = 0x4D) \<and> (c = 0x70 \<or> c = 0x50) \<and> d = 0x34"
| "isDotMp4 s \<longleftrightarrow> False"

fun isDotJson :: "jsstring \<Rightarrow> bool" where
  "isDotJson [a, b, c, d, e] \<longleftrightarrow>
     a = 0x2E \<and> (b = 0x6A \<or> b = 0x4A) \<and> (c = 0x73 \<or> c = 0x53)
     \<and> (d = 0x6F \<or> d = 0x4F) \<and> (e = 0x6E \<or> e = 0x4E)"
| "isDotJson s \<longleftrightarrow> False"

definition stripMp4 :: "jsstring \<Rightarrow> jsstring" where
  "stripMp4 name =
     (if isDotMp4 (drop (length name - 4) name) then take (length name - 4) name else name)"

definition stripJson :: "jsstring \<Rightarrow> jsstring" where
  "stripJson name =
     (if isDotJson (drop (length name - 5) name) then take (length name - 5) name else name)"

text \<open>
  The outside world of a whole run: the environment, the two listings of the pending
  folder (an exception of \<open>createDriveClient\<close> or \<open>ensureTmpDir\<close> counts as one of the
  first listing), the outcome of fetching and parsing each metadata file (by file id), and
  the outcomes of the calls made for each file pair (by the id of its video).
\<close>

record world =
  process_env :: environment
  list_mp4 :: "drive_file list outcome"
  list_json :: "drive_file list outcome"
  json_content :: "jsstring \<Rightarrow> jsval outcome"
  item_apis :: "jsstring \<Rightarrow> apis"

text \<open>
  The loop of \<open>fetchFilePairs\<close> over the videos: the first metadata file with the same
  base name is fetched and validated; an exception of \<open>fetchJsonContent\<close> leaves the loop
  and the function. A video without a metadata file is passed over.
\<close>

fun pairFiles ::
  "(jsstring \<Rightarrow> jsval outcome) \<Rightarrow> drive_file list \<Rightarrow> drive_file list \<Rightarrow> FilePair list outcome"
where
  "pairFiles content jsonFiles [] = Returns []"
| "pairFiles content jsonFiles (mp4File # rest) =
     (case find (\<lambda>j. stripJson (file_name j) = stripMp4 (file_name mp4File)) jsonFiles of
        Some matchingJson \<Rightarrow>
          andThen (fetchJsonContent (content (file_id matchingJson))) (\<lambda>md.
          andThen (pairFiles content jsonFiles rest) (\<lambda>pairs.
            Returns
              (\<lparr>videoFileId = file_id mp4File, jsonFileId = file_id matchingJson,
                videoFileName = file_name mp4File, jsonFileName = file_name matchingJson,
                metadata = md\<rparr> # pairs)))
      | None \<Rightarrow> pairFiles content jsonFiles rest)"

definition fetchFilePairs :: "world \<Rightarrow> FilePair list outcome" where
  "fetchFilePairs w =
     andThen (list_mp4 w) (\<lambda>mp4Files.
     andThen (list_json w) (\<lambda>jsonFiles.
       pairFiles (json_content w) jsonFiles mp4Files))"

text \<open>The loop of main over the file pairs: the trace of all rounds.\<close>

fun processAll :: "world \<Rightarrow> AppConfig \<Rightarrow> FilePair list \<Rightarrow> event list" where
  "processAll w config [] = []"
| "processAll w config (filePair # rest) =
     processFilePair (item_apis w (videoFileId filePair)) config filePair
     @ processAll w config rest"

text \<open>
  main: an exception of \<open>loadConfig\<close> or of \<open>fetchFilePairs\<close> reaches the outer \<open>catch\<close>,
  which logs the fatal error and calls \<open>process.exit(1)\<close>; the process ends there.
  Otherwise the loop runs, the \<open>finally\<close> clause removes the temporary files
  (\<open>cleanupTmpFiles\<close>, taken to return) and the process ends with the exit code 0.
\<close>

record main_result =
  exitCode :: nat
  events :: "event list"

definition fatal :: "log_text list \<Rightarrow> thrown \<Rightarrow> main_result" where
  "fatal warnings e =
     \<lparr>exitCode = 1, events = map LogWarn warnings @ [LogError (FatalError e), ProcessExit 1]\<rparr>"

definition main :: "world \<Rightarrow> main_result" where
  "main w =
     (case loadConfig (process_env w) of
        (Throws e, warnings) \<Rightarrow> fatal warnings e
      | (Returns config, warnings) \<Rightarrow>
          (case fetchFilePairs w of
             Throws e \<Rightarrow> fatal warnings e
           | Returns filePairs \<Rightarrow>
               if filePairs = []
               then \<lparr>exitCode = 0, events = map LogWarn warnings @ [CleanupTmpFiles]\<rparr>
               else \<lparr>exitCode = 0,
                     events = map LogWarn warnings @ processAll w config filePairs
                              @ [CleanupTmpFiles]\<rparr>))"

section \<open>Observations on traces, and the reasoning rule for statements\<close>

text \<open>
  The platforms whose publisher was called, in the order of the calls; the events that
  are neither a publisher call nor a status write; the calls of \<open>moveFilesToDone\<close>; the
  requests that move a file.
\<close>

fun published :: "event list \<Rightarrow> Platform list" where
  "published [] = []"
| "published (Publish p md # es) = p # published es"
| "published (e # es) = published es"

fun quiet :: "event \<Rightarrow> bool" where
  "quiet (Publish p md) = False"
| "quiet (UpdateJsonStatus j m) = False"
| "quiet e = True"

fun isFinalize :: "event \<Rightarrow> bool" where
  "isFinalize (MoveFilesToDone v j) = True"
| "isFinalize e = False"

fun isMove :: "event \<Rightarrow> bool" where
  "isMove (DriveMoveToDone f) = True"
| "isMove e = False"

fun isStatusWrite :: "event \<Rightarrow> bool" where
  "isStatusWrite (UpdateJsonStatus j m) = True"
| "isStatusWrite e = False"

text \<open>
  \<open>commits pub jid tr\<close>: in the trace \<open>tr\<close>, every publisher call whose result (given by
  \<open>pub\<close>) is a success without skip is directly followed by the status write of the
  metadata with the platform's flag set, and every status write directly follows such a
  call.
\<close>

definition commits ::
  "(Platform \<Rightarrow> PostMetadata \<Rightarrow> UploadResult) \<Rightarrow> jsstring \<Rightarrow> event list \<Rightarrow> bool" where
  "commits pub jid tr \<longleftrightarrow>
     (\<forall>i p md. i < length tr \<and> tr ! i = Publish p md \<and> success (pub p md)
          \<and> \<not> skipped (pub p md) \<longrightarrow>
        Suc i < length tr \<and>
        tr ! Suc i =
          UpdateJsonStatus jid (md\<lparr>upload_status := markUploaded p (upload_status md)\<rparr>))
     \<and> (\<forall>i j m. i < length tr \<and> tr ! i = UpdateJsonStatus j m \<longrightarrow>
        0 < i \<and> (\<exists>p md. tr ! (i - 1) = Publish p md \<and> success (pub p md)
          \<and> \<not> skipped (pub p md)))"

text \<open>
  \<open>triple P f Q E\<close>: from a state that satisfies \<open>P\<close>, the statement \<open>f\<close> ends in a state
  that satisfies \<open>Q\<close> when it completes and \<open>E\<close> when it throws.
\<close>

definition triple ::
  "(run_state \<Rightarrow> bool) \<Rightarrow> statement \<Rightarrow> (run_state \<Rightarrow> bool) \<Rightarrow> (run_state \<Rightarrow> bool) \<Rightarrow> bool"
where
  "triple P f Q E \<longleftrightarrow>
     (\<forall>st. P st \<longrightarrow> (case f st of (Returns u, st') \<Rightarrow> Q st' | (Throws e, st') \<Rightarrow> E st'))"

text \<open>
  The names of the four optional variables of X and of the fourteen required variables,
  and the number of the variables of X that are set (defined and not blank).
\<close>

definition xKeys :: "string list" where
  "xKeys = [''X_API_KEY'', ''X_API_SECRET'', ''X_ACCESS_TOKEN'', ''X_ACCESS_TOKEN_SECRET'']"

definition requiredKeys :: "string list" where
  "requiredKeys =
     [''GDRIVE_CREDENTIALS_JSON'', ''GDRIVE_PENDING_FOLDER_ID'', ''GDRIVE_DONE_FOLDER_ID'',
      ''YOUTUBE_CLIENT_ID'', ''YOUTUBE_CLIENT_SECRET'', ''YOUTUBE_REFRESH_TOKEN'',
      ''TIKTOK_CLIENT_KEY'', ''TIKTOK_CLIENT_SECRET'', ''TIKTOK_REFRESH_TOKEN'',
      ''IG_ACCESS_TOKEN'', ''IG_ACCOUNT_ID'', ''MAIL_USER'', ''MAIL_PASS'', ''MAIL_TO'']"

definition xKeysSet :: "environment \<Rightarrow> nat" where
  "xKeysSet env = length (filter (\<lambda>key. getOptionalEnv env key \<noteq> None) xKeys)"

text \<open>The video files whose download was requested, in the order of the requests.\<close>

fun downloads :: "event list \<Rightarrow> jsstring list" where
  "downloads [] = []"
| "downloads (DownloadVideo v # es) = v # downloads es"
| "downloads (e # es) = downloads es"

section \<open>Sample inputs\<close>

text \<open>
  A file pair with no platform done, a configuration with X disabled, and a world in
  which every call returns.
\<close>

definition sampleMetadata :: PostMetadata where
  "sampleMetadata =
     \<lparr>title = [0x61], description = [0x62], tags = [],
      upload_status =
        \<lparr>us_youtube = False, us_tiktok = False, us_instagram = False, us_x = False\<rparr>\<rparr>"

definition sampleFilePair :: FilePair where
  "sampleFilePair =
     \<lparr>videoFileId = [0x31], jsonFileId = [0x32],
      videoFileName = [0x76, 0x2E, 0x6D, 0x70, 0x34],
      jsonFileName = [0x76, 0x2E, 0x6A, 0x73, 0x6F, 0x6E],
      metadata = sampleMetadata\<rparr>"

definition sampleConfig :: AppConfig where
  "sampleConfig =
     \<lparr>drive = \<lparr>credentialsJson = [0x63], pendingFolderId = [0x70], doneFolderId = [0x64]\<rparr>,
      youtube = \<lparr>yt_clientId = [0x69], yt_clientSecret = [0x73], yt_refreshToken = [0x72]\<rparr>,
      tiktok = \<lparr>tt_clientKey = [0x6B], tt_clientSecret = [0x73], tt_refreshToken = [0x72]\<rparr>,
      instagram = \<lparr>ig_accessToken = [0x74], ig_accountId = [0x61]\<rparr>,
      x = None,
      mail = \<lparr>mail_user = [0x75], mail_pass = [0x70], mail_to = [0x74]\<rparr>,
      isXEnabled = False\<rparr>"

definition calmApis :: apis where
  "calmApis =
     \<lparr>drive_download = Returns [0x2F, 0x76],
      drive_update = (\<lambda>p. Returns ()),
      drive_share = Returns [0x75],
      drive_move_video = Returns (),
      drive_move_json = Returns (),
      yt_insert = Returns [0x79],
      tt_token = Returns \<lparr>access_token = Some [0x74], token_data = []\<rparr>,
      tt_file = Returns 1024,
      tt_init = Returns \<lparr>error_code_ok = True, init_error = []\<rparr>,
      tt_put = Returns (),
      ig_container = Returns [0x63],
      ig_status = (\<lambda>i. Returns FINISHED),
      ig_publish = Returns [0x6D],
      x_uploadMedia = Returns [0x6D],
      x_tweet = (\<lambda>text. Returns [0x74])\<rparr>"

text \<open>The same world with a YouTube upload that throws, and a file pair with every flag set.\<close>

definition youtubeDownApis :: apis where
  "youtubeDownApis = calmApis\<lparr>yt_insert := Throws (JsError (Text [0x65]))\<rparr>"

definition doneFilePair :: FilePair where
  "doneFilePair =
     sampleFilePair\<lparr>metadata := sampleMetadata\<lparr>upload_status :=
       \<lparr>us_youtube = True, us_tiktok = True, us_instagram = True, us_x = True\<rparr>\<rparr>\<rparr>"

text \<open>
  An environment with the fourteen required variables, and with two variables of X of
  which one is blank.
\<close>

definition requiredEnv :: "(string \<times> jsstring) list" where
  "requiredEnv =
     [(''GDRIVE_CREDENTIALS_JSON'', [0x7B, 0x7D]), (''GDRIVE_PENDING_FOLDER_ID'', [0x70]),
      (''GDRIVE_DONE_FOLDER_ID'', [0x64]), (''YOUTUBE_CLIENT_ID'', [0x69]),
      (''YOUTUBE_CLIENT_SECRET'', [0x73]), (''YOUTUBE_REFRESH_TOKEN'', [0x72]),
      (''TIKTOK_CLIENT_KEY'', [0x6B]), (''TIKTOK_CLIENT_SECRET'', [0x73]),
      (''TIKTOK_REFRESH_TOKEN'', [0x72]), (''IG_ACCESS_TOKEN'', [0x74]),
      (''IG_ACCOUNT_ID'', [0x61]), (''MAIL_USER'', [0x75]), (''MAIL_PASS'', [0x70]),
      (''MAIL_TO'', [0x74])]"

definition partialXEnv :: environment where
  "partialXEnv =
     map_of (requiredEnv @ [(''X_API_KEY'', [0x20, 0x6B, 0x20]), (''X_API_SECRET'', [0x20])])"

text \<open>
  A feed of two videos with their metadata files, \<open>a.mp4\<close> with \<open>a.json\<close> and \<open>b.mp4\<close> with
  \<open>b.json\<close>. In \<open>malformedWorld\<close> the first metadata file has no title and the second is
  well formed. In \<open>downloadFailsWorld\<close> both are well formed and the download of the first
  video throws.
\<close>

definition goodJson :: jsval where
  "goodJson =
     JObject
       [(''title'', JString [0x74]), (''description'', JString [0x64]), (''tags'', JArray []),
        (''upload_status'',
           JObject [(''youtube'', JBool False), (''tiktok'', JBool False),
                    (''instagram'', JBool False), (''x'', JBool False)])]"

definition noTitleJson :: jsval where
  "noTitleJson =
     JObject
       [(''description'', JString [0x64]), (''tags'', JArray []),
        (''upload_status'',
           JObject [(''youtube'', JBool False), (''tiktok'', JBool False),
                    (''instagram'', JBool False), (''x'', JBool False)])]"

definition twoVideos :: "drive_file list" where
  "twoVideos =
     [\<lparr>file_id = [0x31], file_name = [0x61, 0x2E, 0x6D, 0x70, 0x34]\<rparr>,
      \<lparr>file_id = [0x33], file_name = [0x62, 0x2E, 0x6D, 0x70, 0x34]\<rparr>]"

definition twoJsons :: "drive_file list" where
  "twoJsons =
     [\<lparr>file_id = [0x32], file_name = [0x61, 0x2E, 0x6A, 0x73, 0x6F, 0x6E]\<rparr>,
      \<lparr>file_id = [0x34], file_name = [0x62, 0x2E, 0x6A, 0x73, 0x6F, 0x6E]\<rparr>]"

definition malformedWorld :: world where
  "malformedWorld =
     \<lparr>process_env = map_of requiredEnv,
      list_mp4 = Returns twoVideos,
      list_json = Returns twoJsons,
      json_content = (\<lambda>f. if f = [0x32] then Returns noTitleJson else Returns goodJson),
      item_apis = (\<lambda>v. calmApis)\<rparr>"

definition downloadFailsWorld :: world where
  "downloadFailsWorld =
     \<lparr>process_env = map_of requiredEnv,
      list_mp4 = Returns twoVideos,
      list_json = Returns twoJsons,
      json_content = (\<lambda>f. Returns goodJson),
      item_apis = (\<lambda>v. if v = [0x31]
                        then calmApis\<lparr>drive_download := Throws (JsError (Text [0x65]))\<rparr>
                        else calmApis)\<rparr>"

section \<open>Lemmas on statements and traces\<close>

lemma tripleI:
  assumes "\<And>st st' u. P st \<Longrightarrow> f st = (Returns u, st') \<Longrightarrow> Q st'"
    and "\<And>st st' e. P st \<Longrightarrow> f st = (Throws e, st') \<Longrightarrow> E st'"
  shows "triple P f Q E"
  unfolding triple_def using assms by (auto split: prod.splits outcome.splits)

lemma triple_seq:
  assumes "triple P f Q E" and "triple Q g R E"
  shows "triple P (seq f g) R E"
  using assms unfolding triple_def seq_def
  by (fastforce split: prod.splits outcome.splits)

lemma triple_run:
  assumes "triple P0 (call (DownloadVideo (videoFileId fp)) (drive_download w)) P1 E"
    and "triple P1 (uploadStep w config fp YouTube) P2 E"
    and "triple P2 (uploadStep w config fp TikTok) P3 E"
    and "triple P3 (call (GetVideoShareLink (videoFileId fp)) (drive_share w)) P4 E"
    and "triple P4 (uploadStep w config fp Instagram) P5 E"
    and "triple P5 (uploadStep w config fp X) P6 E"
    and "triple P6 (phase4 w config fp) Q E"
    and "P0 (initialState fp)"
  shows "case runFilePair w config fp of (Returns u, st) \<Rightarrow> Q st | (Throws e, st) \<Rightarrow> E st"
proof -
  have "triple P0
     (seq (call (DownloadVideo (videoFileId fp)) (drive_download w))
     (seq (uploadStep w config fp YouTube)
     (seq (uploadStep w config fp TikTok)
     (seq (call (GetVideoShareLink (videoFileId fp)) (drive_share w))
     (seq (uploadStep w config fp Instagram)
     (seq (uploadStep w config fp X)
          (phase4 w config fp))))))) Q E"
    by (rule triple_seq[OF assms(1) triple_seq[OF assms(2) triple_seq[OF assms(3)
      triple_seq[OF assms(4) triple_seq[OF assms(5) triple_seq[OF assms(6) assms(7)]]]]]])
  then show ?thesis
    using assms(8) unfolding triple_def runFilePair_def by simp
qed

lemma triple_run_final:
  assumes "triple P0 (call (DownloadVideo (videoFileId fp)) (drive_download w)) P1 E"
    and "triple P1 (uploadStep w config fp YouTube) P2 E"
    and "triple P2 (uploadStep w config fp TikTok) P3 E"
    and "triple P3 (call (GetVideoShareLink (videoFileId fp)) (drive_share w)) P4 E"
    and "triple P4 (uploadStep w config fp Instagram) P5 E"
    and "triple P5 (uploadStep w config fp X) P6 E"
    and "triple P6 (phase4 w config fp) E E"
    and "P0 (initialState fp)"
  shows "E (snd (runFilePair w config fp))"
  using triple_run[OF assms] by (auto split: prod.splits outcome.splits)

lemma commits_Nil: "commits pub jid []"
  by (simp add: commits_def)

lemma commitsD1:
  "commits pub jid tr \<Longrightarrow> i < length tr \<Longrightarrow> tr ! i = Publish p md \<Longrightarrow>
   success (pub p md) \<Longrightarrow> \<not> skipped (pub p md) \<Longrightarrow>
   Suc i < length tr \<and>
   tr ! Suc i = UpdateJsonStatus jid (md\<lparr>upload_status := markUploaded p (upload_status md)\<rparr>)"
  unfolding commits_def by blast

lemma commitsD2:
  "commits pub jid tr \<Longrightarrow> i < length tr \<Longrightarrow> tr ! i = UpdateJsonStatus j m \<Longrightarrow>
   0 < i \<and> (\<exists>p md. tr ! (i - 1) = Publish p md \<and> success (pub p md) \<and> \<not> skipped (pub p md))"
  unfolding commits_def by blast

lemma commits_append:
  assumes xs: "commits pub jid xs" and ys: "commits pub jid ys"
  shows "commits pub jid (xs @ ys)"
  unfolding commits_def
proof (rule conjI; intro allI impI)
  fix i p md
  assume h: "i < length (xs @ ys) \<and> (xs @ ys) ! i = Publish p md \<and> success (pub p md)
    \<and> \<not> skipped (pub p md)"
  show "Suc i < length (xs @ ys) \<and> (xs @ ys) ! Suc i =
      UpdateJsonStatus jid (md\<lparr>upload_status := markUploaded p (upload_status md)\<rparr>)"
  proof (cases "i < length xs")
    case True
    with h have "xs ! i = Publish p md" by (simp add: nth_append)
    from commitsD1[OF xs True this] h show ?thesis by (simp add: nth_append)
  next
    case False
    with h have a: "i - length xs < length ys" and b: "ys ! (i - length xs) = Publish p md"
      by (auto simp: nth_append)
    from commitsD1[OF ys a b] h have c: "Suc (i - length xs) < length ys"
      and d: "ys ! Suc (i - length xs) =
        UpdateJsonStatus jid (md\<lparr>upload_status := markUploaded p (upload_status md)\<rparr>)"
      by auto
    from c False have e: "Suc i < length (xs @ ys)" by simp
    from False have f: "Suc i - length xs = Suc (i - length xs)" by arith
    from False have g: "\<not> Suc i < length xs" by arith
    from d e f g show ?thesis by (simp add: nth_append)
  qed
next
  fix i j m
  assume h: "i < length (xs @ ys) \<and> (xs @ ys) ! i = UpdateJsonStatus j m"
  show "0 < i \<and> (\<exists>p md. (xs @ ys) ! (i - 1) = Publish p md \<and> success (pub p md)
      \<and> \<not> skipped (pub p md))"
  proof (cases "i < length xs")
    case True
    with h have "xs ! i = UpdateJsonStatus j m" by (simp add: nth_append)
    from commitsD2[OF xs True this] True show ?thesis
      by (auto simp: nth_append)
  next
    case False
    with h have a: "i - length xs < length ys" and b: "ys ! (i - length xs) = UpdateJsonStatus j m"
      by (auto simp: nth_append)
    from commitsD2[OF ys a b] have c: "0 < i - length xs"
      and d: "\<exists>p md. ys ! (i - length xs - 1) = Publish p md \<and> success (pub p md)
        \<and> \<not> skipped (pub p md)"
      by auto
    from c have e: "\<not> i - 1 < length xs" by arith
    have f: "i - 1 - length xs = i - length xs - 1" by arith
    from c d e f show ?thesis by (simp add: nth_append)
  qed
qed

lemma commits_quiet:
  assumes "\<forall>e \<in> set seg. quiet e"
  shows "commits pub jid seg"
proof -
  have "\<And>i. i < length seg \<Longrightarrow> quiet (seg ! i)"
    using assms by simp
  then show ?thesis
    unfolding commits_def by (metis quiet.simps(1) quiet.simps(2))
qed

lemma commits_publish_only:
  "\<not> (success (pub p md) \<and> \<not> skipped (pub p md)) \<Longrightarrow> commits pub jid [Publish p md]"
  unfolding commits_def by (auto simp: nth_Cons split: nat.splits)

lemma commits_publish_update:
  "success (pub p md) \<and> \<not> skipped (pub p md) \<Longrightarrow>
   commits pub jid [Publish p md,
     UpdateJsonStatus jid (md\<lparr>upload_status := markUploaded p (upload_status md)\<rparr>)]"
  unfolding commits_def by (auto simp: nth_Cons split: nat.splits)

lemma snd_call: "snd (call ev out st) = st\<lparr>trace := trace st @ [ev]\<rparr>"
  by (simp add: call_def)

lemma snd_uploadStep:
  "snd (uploadStep w config fp p st) =
     (if success (publish w config p (currentMetadata st))
         \<and> \<not> skipped (publish w config p (currentMetadata st))
      then st\<lparr>results := results st @ [publish w config p (currentMetadata st)],
              trace := trace st @ [Publish p (currentMetadata st),
                UpdateJsonStatus (jsonFileId fp)
                  ((currentMetadata st)\<lparr>upload_status :=
                     markUploaded p (upload_status (currentMetadata st))\<rparr>)],
              currentMetadata := (currentMetadata st)\<lparr>upload_status :=
                     markUploaded p (upload_status (currentMetadata st))\<rparr>\<rparr>
      else st\<lparr>results := results st @ [publish w config p (currentMetadata st)],
              trace := trace st @ [Publish p (currentMetadata st)]\<rparr>)"
  by (simp add: uploadStep_def Let_def call_def)

lemma fst_uploadStep:
  "fst (uploadStep w config fp p st) =
     (if success (publish w config p (currentMetadata st))
         \<and> \<not> skipped (publish w config p (currentMetadata st))
      then drive_update w p else Returns ())"
  by (cases "drive_update w p") (simp_all add: uploadStep_def Let_def call_def)

lemma phase4_state:
  "snd (phase4 w config fp st) =
     st\<lparr>allSuccess := Some (isAllSuccess (results st) (isXEnabled config)),
        trace := trace st @
          (if isAllSuccess (results st) (isXEnabled config)
           then [MoveFilesToDone (videoFileId fp) (jsonFileId fp), DriveMoveToDone (videoFileId fp)]
                @ (case drive_move_video w of
                     Throws e \<Rightarrow> []
                   | Returns u \<Rightarrow>
                       DriveMoveToDone (jsonFileId fp)
                       # (case drive_move_json w of
                            Throws e \<Rightarrow> []
                          | Returns u \<Rightarrow>
                              [SendResultEmail
                                 \<lparr>batch_filePair = fp\<lparr>metadata := currentMetadata st\<rparr>,
                                  batch_results = results st, batch_allSuccess = True,
                                  batch_isXEnabled = isXEnabled config\<rparr>]))
           else [LogWarn SomePlatformFailed,
                 SendResultEmail
                   \<lparr>batch_filePair = fp\<lparr>metadata := currentMetadata st\<rparr>,
                    batch_results = results st, batch_allSuccess = False,
                    batch_isXEnabled = isXEnabled config\<rparr>])\<rparr>"
  by (cases "drive_move_video w"; cases "drive_move_json w")
     (simp_all add: phase4_def Let_def seq_def call_def moveFilesToDone_def logWarn_def
       sendResultEmail_def)

lemma phase4_quiet:
  "\<exists>seg. snd (phase4 w config fp st) =
      st\<lparr>allSuccess := Some (isAllSuccess (results st) (isXEnabled config)),
         trace := trace st @ seg\<rparr>
    \<and> (\<forall>e \<in> set seg. quiet e)"
  by (subst phase4_state, rule exI, rule conjI, rule refl)
     (auto split: outcome.splits)

lemma published_append: "published (xs @ ys) = published xs @ published ys"
  by (induction xs rule: published.induct) simp_all

lemma published_quiet: "\<forall>e \<in> set seg. quiet e \<Longrightarrow> published seg = []"
  by (induction seg rule: published.induct) simp_all

lemma triple_snd:
  assumes "\<And>st. P st \<Longrightarrow> Q (snd (f st)) \<and> E (snd (f st))"
  shows "triple P f Q E"
proof (rule tripleI)
  fix st st' u assume "P st" "f st = (Returns u, st')"
  with assms[of st] show "Q st'" by simp
next
  fix st st' e assume "P st" "f st = (Throws e, st')"
  with assms[of st] show "E st'" by simp
qed

lemma triple_weaken:
  assumes "triple P f Q E" and "\<And>st. E st \<Longrightarrow> E' st"
  shows "triple P f Q E'"
proof (rule tripleI)
  fix st st' u assume "P st" "f st = (Returns u, st')"
  with assms(1) show "Q st'" unfolding triple_def by fastforce
next
  fix st st' e assume "P st" "f st = (Throws e, st')"
  with assms(1) have "E st'" unfolding triple_def by fastforce
  then show "E' st'" by (rule assms(2))
qed

lemma run_commits:
  "commits (publish w config) (jsonFileId fp) (trace (snd (runFilePair w config fp)))"
proof -
  let ?C = "\<lambda>st::run_state. commits (publish w config) (jsonFileId fp) (trace st)"
  have call: "triple ?C (call ev out) ?C ?C" if "quiet ev" for ev and out :: "'a outcome"
    by (rule triple_snd) (simp add: snd_call commits_append commits_quiet that)
  have step: "triple ?C (uploadStep w config fp p) ?C ?C" for p
    by (rule triple_snd)
       (simp add: snd_uploadStep commits_append commits_publish_only commits_publish_update)
  have last: "triple ?C (phase4 w config fp) ?C ?C"
  proof (rule triple_snd)
    fix st assume c: "?C st"
    obtain seg where s: "snd (phase4 w config fp st) =
        st\<lparr>allSuccess := Some (isAllSuccess (results st) (isXEnabled config)),
           trace := trace st @ seg\<rparr>" and q: "\<forall>e \<in> set seg. quiet e"
      using phase4_quiet by blast
    from c q show "?C (snd (phase4 w config fp st)) \<and> ?C (snd (phase4 w config fp st))"
      by (simp add: s commits_append commits_quiet)
  qed
  show ?thesis
    by (rule triple_run_final[where E = ?C and ?P0.0 = ?C, OF call step step call step step last])
       (simp_all add: initialState_def commits_Nil)
qed

lemma run_published:
  "\<exists>n. published (trace (snd (runFilePair w config fp))) = take n [YouTube, TikTok, Instagram, X]"
proof -
  let ?P = "\<lambda>ps (st::run_state). published (trace st) = ps"
  let ?E = "\<lambda>st::run_state. \<exists>n. published (trace st) = take n [YouTube, TikTok, Instagram, X]"
  have t0: "take 0 [YouTube, TikTok, Instagram, X] = []"
    and t1: "take 1 [YouTube, TikTok, Instagram, X] = [YouTube]"
    and t2: "take 2 [YouTube, TikTok, Instagram, X] = [YouTube, TikTok]"
    and t3: "take 3 [YouTube, TikTok, Instagram, X] = [YouTube, TikTok, Instagram]"
    and t4: "take 4 [YouTube, TikTok, Instagram, X] = [YouTube, TikTok, Instagram, X]"
    by simp_all
  have call: "triple (?P ps) (call ev out) (?P ps) (?P ps)"
    if "quiet ev" for ev ps and out :: "'a outcome"
    using that by (intro triple_snd) (simp add: snd_call published_append published_quiet)
  have step: "triple (?P ps) (uploadStep w config fp p) (?P (ps @ [p])) (?P (ps @ [p]))" for p ps
    by (rule triple_snd) (simp add: snd_uploadStep published_append)
  have weaken: "triple P f Q ?E" if "triple P f Q (?P ps)" and "\<exists>n. ps = take n [YouTube, TikTok, Instagram, X]"
    for P f Q ps
    using that by (auto intro: triple_weaken)
  have last: "triple (?P [YouTube, TikTok, Instagram, X]) (phase4 w config fp) ?E ?E"
  proof (rule triple_snd)
    fix st assume c: "?P [YouTube, TikTok, Instagram, X] st"
    obtain seg where s: "snd (phase4 w config fp st) =
        st\<lparr>allSuccess := Some (isAllSuccess (results st) (isXEnabled config)),
           trace := trace st @ seg\<rparr>" and q: "\<forall>e \<in> set seg. quiet e"
      using phase4_quiet by blast
    from c q have "published (trace (snd (phase4 w config fp st))) = take 4 [YouTube, TikTok, Instagram, X]"
      by (simp add: s published_append published_quiet)
    then show "?E (snd (phase4 w config fp st)) \<and> ?E (snd (phase4 w config fp st))"
      by blast
  qed
  show ?thesis
    apply (rule triple_run_final[where E = ?E and ?P0.0 = "?P []" and ?P1.0 = "?P []"
          and ?P2.0 = "?P [YouTube]" and ?P3.0 = "?P [YouTube, TikTok]"
          and ?P4.0 = "?P [YouTube, TikTok]" and ?P5.0 = "?P [YouTube, TikTok, Instagram]"
          and ?P6.0 = "?P [YouTube, TikTok, Instagram, X]"])
    subgoal by (rule weaken[OF call, of _ "[]"]) (simp, rule exI[of _ 0], simp)
    subgoal using weaken[OF step[of "[]" YouTube]] t1 by (metis append_Nil)
    subgoal using weaken[OF step[of "[YouTube]" TikTok]] t2 by (metis append_Cons append_Nil)
    subgoal by (rule weaken[OF call, of _ "[YouTube, TikTok]"]) (simp, metis t2)
    subgoal using weaken[OF step[of "[YouTube, TikTok]" Instagram]] t3
      by (metis append_Cons append_Nil)
    subgoal using weaken[OF step[of "[YouTube, TikTok, Instagram]" X]] t4
      by (metis append_Cons append_Nil)
    subgoal by (rule last)
    subgoal by (simp add: initialState_def)
    done
qed

section \<open>Overall success\<close>

text \<open>
  C1. \<open>isAllSuccess rs enabled\<close> is false exactly when some result of the list is
  not skipped, is not a result of X while X is disabled, and has \<open>success = false\<close>; it is
  true otherwise, in particular for the empty list and for a list of skipped results.
  The four examples of the specification follow: three successes and the skip of the
  disabled X give true; a failure of the second platform gives false; four skips give
  true; with X enabled, a failure of X gives false.
\<close>

theorem isAllSuccess_spec:
  "(isAllSuccess rs enabled = False \<longleftrightarrow>
      (\<exists>r \<in> set rs. \<not> skipped r \<and> \<not> (platform r = X \<and> \<not> enabled) \<and> \<not> success r))
   \<and> isAllSuccess [] enabled = True
   \<and> ((\<forall>r \<in> set rs. skipped r) \<longrightarrow> isAllSuccess rs enabled = True)
   \<and> isAllSuccess
        [\<lparr>platform = YouTube, success = True, skipped = False, error = None\<rparr>,
         \<lparr>platform = TikTok, success = True, skipped = False, error = None\<rparr>,
         \<lparr>platform = Instagram, success = True, skipped = False, error = None\<rparr>,
         \<lparr>platform = X, success = False, skipped = True, error = None\<rparr>] False = True
   \<and> isAllSuccess
        [\<lparr>platform = YouTube, success = True, skipped = False, error = None\<rparr>,
         \<lparr>platform = TikTok, success = False, skipped = False, error = Some e\<rparr>,
         \<lparr>platform = Instagram, success = True, skipped = False, error = None\<rparr>,
         \<lparr>platform = X, success = False, skipped = True, error = None\<rparr>] False = False
   \<and> isAllSuccess
        [\<lparr>platform = YouTube, success = True, skipped = True, error = None\<rparr>,
         \<lparr>platform = TikTok, success = True, skipped = True, error = None\<rparr>,
         \<lparr>platform = Instagram, success = True, skipped = True, error = None\<rparr>,
         \<lparr>platform = X, success = False, skipped = True, error = None\<rparr>] False = True
   \<and> isAllSuccess
        [\<lparr>platform = YouTube, success = True, skipped = False, error = None\<rparr>,
         \<lparr>platform = TikTok, success = True, skipped = False, error = None\<rparr>,
         \<lparr>platform = Instagram, success = True, skipped = False, error = None\<rparr>,
         \<lparr>platform = X, success = False, skipped = False, error = Some e\<rparr>] True = False"
proof -
  have general: "isAllSuccess rs enabled = False \<longleftrightarrow>
      (\<exists>r \<in> set rs. \<not> skipped r \<and> \<not> (platform r = X \<and> \<not> enabled) \<and> \<not> success r)"
    by (induction rs) auto
  have all_skipped: "(\<forall>r \<in> set rs. skipped r) \<longrightarrow> isAllSuccess rs enabled = True"
    using general by auto
  show ?thesis
    using general all_skipped by simp
qed

theorem isAllSuccess_spec_witness:
  "isAllSuccess
     [\<lparr>platform = YouTube, success = True, skipped = True, error = None\<rparr>,
      \<lparr>platform = X, success = False, skipped = False, error = None\<rparr>] False = True
   \<and> isAllSuccess
     [\<lparr>platform = YouTube, success = True, skipped = True, error = None\<rparr>,
      \<lparr>platform = X, success = False, skipped = False, error = None\<rparr>] True = False
   \<and> isAllSuccess
     [\<lparr>platform = YouTube, success = True, skipped = True, error = None\<rparr>,
      \<lparr>platform = X, success = False, skipped = True, error = None\<rparr>] True = True"
  using isAllSuccess_spec
    [of "[\<lparr>platform = YouTube, success = True, skipped = True, error = None\<rparr>,
          \<lparr>platform = X, success = False, skipped = False, error = None\<rparr>]" False]
    isAllSuccess_spec
    [of "[\<lparr>platform = YouTube, success = True, skipped = True, error = None\<rparr>,
          \<lparr>platform = X, success = False, skipped = False, error = None\<rparr>]" True]
    isAllSuccess_spec
    [of "[\<lparr>platform = YouTube, success = True, skipped = True, error = None\<rparr>,
          \<lparr>platform = X, success = False, skipped = True, error = None\<rparr>]" True]
  by simp

section \<open>Eager persistence of the status\<close>

text \<open>
  C2. In the trace of the processing of one file pair, a publisher call whose result is a
  success without skip is directly followed by the \<open>updateJsonStatus\<close> call, which writes
  the metadata with the flag of that platform set to true; every later publisher call
  comes after that write. A publisher call whose result is a failure or a skip is not
  followed by a status write, and every status write directly follows a publisher call
  with a success without skip. The publishers are called in the order YouTube, TikTok,
  Instagram, X (the calls made are a prefix of that list).
\<close>

theorem eager_status_write:
  "let tr = trace (snd (runFilePair w config fp)) in
   (\<forall>i p md. i < length tr \<and> tr ! i = Publish p md
        \<and> success (publish w config p md) \<and> \<not> skipped (publish w config p md) \<longrightarrow>
      Suc i < length tr
      \<and> tr ! Suc i =
          UpdateJsonStatus (jsonFileId fp)
            (md\<lparr>upload_status := markUploaded p (upload_status md)\<rparr>)
      \<and> statusOf p (markUploaded p (upload_status md))
      \<and> (\<forall>k q md'. i < k \<and> k < length tr \<and> tr ! k = Publish q md' \<longrightarrow> Suc i < k))
   \<and> (\<forall>i p md. i < length tr \<and> tr ! i = Publish p md
        \<and> \<not> (success (publish w config p md) \<and> \<not> skipped (publish w config p md)) \<longrightarrow>
      \<not> (\<exists>j m. Suc i < length tr \<and> tr ! Suc i = UpdateJsonStatus j m))
   \<and> (\<forall>i j m. i < length tr \<and> tr ! i = UpdateJsonStatus j m \<longrightarrow>
      0 < i \<and> (\<exists>p md. tr ! (i - 1) = Publish p md
        \<and> success (publish w config p md) \<and> \<not> skipped (publish w config p md)))
   \<and> (\<exists>n. published tr = take n [YouTube, TikTok, Instagram, X])"
proof -
  define tr where "tr = trace (snd (runFilePair w config fp))"
  have c: "commits (publish w config) (jsonFileId fp) tr"
    unfolding tr_def by (rule run_commits)
  have mark: "statusOf p (markUploaded p us)" for p us
    by (cases p) (simp_all add: statusOf_def markUploaded_def)
  have first: "Suc i < length tr
      \<and> tr ! Suc i =
          UpdateJsonStatus (jsonFileId fp)
            (md\<lparr>upload_status := markUploaded p (upload_status md)\<rparr>)
      \<and> statusOf p (markUploaded p (upload_status md))
      \<and> (\<forall>k q md'. i < k \<and> k < length tr \<and> tr ! k = Publish q md' \<longrightarrow> Suc i < k)"
    if h: "i < length tr \<and> tr ! i = Publish p md
        \<and> success (publish w config p md) \<and> \<not> skipped (publish w config p md)" for i p md
  proof -
    from commitsD1[OF c, of i p md] h
    have a: "Suc i < length tr" and b: "tr ! Suc i =
          UpdateJsonStatus (jsonFileId fp)
            (md\<lparr>upload_status := markUploaded p (upload_status md)\<rparr>)"
      by simp_all
    have "Suc i < k" if "i < k \<and> k < length tr \<and> tr ! k = Publish q md'" for k q md'
    proof (rule ccontr)
      assume "\<not> Suc i < k"
      with that have "k = Suc i" by arith
      with that b show False by simp
    qed
    with a b mark show ?thesis by blast
  qed
  have second: "\<not> (\<exists>j m. Suc i < length tr \<and> tr ! Suc i = UpdateJsonStatus j m)"
    if h: "i < length tr \<and> tr ! i = Publish p md
        \<and> \<not> (success (publish w config p md) \<and> \<not> skipped (publish w config p md))" for i p md
  proof
    assume "\<exists>j m. Suc i < length tr \<and> tr ! Suc i = UpdateJsonStatus j m"
    then obtain j m where a: "Suc i < length tr" and b: "tr ! Suc i = UpdateJsonStatus j m"
      by blast
    from commitsD2[OF c a b] h show False by auto
  qed
  have third: "0 < i \<and> (\<exists>p md. tr ! (i - 1) = Publish p md
        \<and> success (publish w config p md) \<and> \<not> skipped (publish w config p md))"
    if "i < length tr \<and> tr ! i = UpdateJsonStatus j m" for i j m
    using commitsD2[OF c, of i j m] that by blast
  have fourth: "\<exists>n. published tr = take n [YouTube, TikTok, Instagram, X]"
    unfolding tr_def by (rule run_published)
  from first second third fourth show ?thesis
    unfolding Let_def tr_def[symmetric] by blast
qed

text \<open>The definitions that evaluate a run on a concrete input.\<close>

lemma pollStatus_numeral:
  "pollStatus status i (numeral k) =
     (case status i of
        Throws e \<Rightarrow> Throws e
      | Returns FINISHED \<Rightarrow> Returns True
      | Returns ERROR \<Rightarrow> Throws (JsError IgContainerError)
      | Returns OtherStatus \<Rightarrow> pollStatus status (Suc i) (pred_numeral k))"
  by (simp add: numeral_eq_Suc)

lemmas run_defs = pollStatus_numeral runFilePair_def seq_def call_def uploadStep_def publish_def Let_def
     initialState_def
     uploadToYouTube_def uploadToTikTok_def uploadToInstagram_def uploadToX_def
     youtubeAttempt_def tiktokAttempt_def instagramAttempt_def xAttempt_def
     tryCatch_def alreadyUploaded_def andThen_def getAccessToken_def MAX_STATUS_CHECKS_def
     markUploaded_def phase4_def moveFilesToDone_def sendResultEmail_def logWarn_def

theorem eager_status_write_witness:
  "trace (snd (runFilePair calmApis sampleConfig sampleFilePair)) ! 1
     = Publish YouTube sampleMetadata
   \<and> success (publish calmApis sampleConfig YouTube sampleMetadata)
   \<and> \<not> skipped (publish calmApis sampleConfig YouTube sampleMetadata)
   \<and> trace (snd (runFilePair calmApis sampleConfig sampleFilePair)) ! 2
     = UpdateJsonStatus [0x32]
         (sampleMetadata\<lparr>upload_status :=
            \<lparr>us_youtube = True, us_tiktok = False, us_instagram = False, us_x = False\<rparr>\<rparr>)
   \<and> trace (snd (runFilePair calmApis sampleConfig sampleFilePair)) ! 3
     = Publish TikTok
         (sampleMetadata\<lparr>upload_status :=
            \<lparr>us_youtube = True, us_tiktok = False, us_instagram = False, us_x = False\<rparr>\<rparr>)"
proof -
  let ?tr = "trace (snd (runFilePair calmApis sampleConfig sampleFilePair))"
  have pub: "publish calmApis sampleConfig YouTube sampleMetadata
      = \<lparr>platform = YouTube, success = True, skipped = False, error = None\<rparr>"
    by (simp add: run_defs calmApis_def sampleMetadata_def)
  have len: "1 < length ?tr" and at1: "?tr ! 1 = Publish YouTube sampleMetadata"
    and at3: "?tr ! 3 = Publish TikTok
         (sampleMetadata\<lparr>upload_status :=
            \<lparr>us_youtube = True, us_tiktok = False, us_instagram = False, us_x = False\<rparr>\<rparr>)"
    by (simp_all add: run_defs calmApis_def sampleConfig_def sampleFilePair_def
        sampleMetadata_def)
  from eager_status_write[of calmApis sampleConfig sampleFilePair, unfolded Let_def,
      THEN conjunct1, rule_format, of 1 YouTube sampleMetadata] len at1 pub
  have "?tr ! Suc 1 = UpdateJsonStatus (jsonFileId sampleFilePair)
      (sampleMetadata\<lparr>upload_status := markUploaded YouTube (upload_status sampleMetadata)\<rparr>)"
    by simp
  then have "?tr ! 2 = UpdateJsonStatus [0x32]
         (sampleMetadata\<lparr>upload_status :=
            \<lparr>us_youtube = True, us_tiktok = False, us_instagram = False, us_x = False\<rparr>\<rparr>)"
    by (simp add: sampleFilePair_def sampleMetadata_def markUploaded_def numeral_2_eq_2)
  with at1 at3 pub show ?thesis by simp
qed

section \<open>Lemmas on the publishers\<close>

lemma platform_publish: "platform (publish w config p md) = p"
  by (cases p)
     (simp_all add: publish_def uploadToYouTube_def uploadToTikTok_def uploadToInstagram_def
       uploadToX_def alreadyUploaded_def tryCatch_def split: outcome.splits)

lemma publish_done_skipped:
  "statusOf p (upload_status md) \<Longrightarrow> skipped (publish w config p md)"
  by (cases p)
     (simp_all add: publish_def statusOf_def uploadToYouTube_def uploadToTikTok_def
       uploadToInstagram_def uploadToX_def alreadyUploaded_def)

lemma publish_success_fresh:
  "success (publish w config p md) \<Longrightarrow> \<not> skipped (publish w config p md) \<Longrightarrow>
   \<not> statusOf p (upload_status md)"
  using publish_done_skipped by blast

lemma statusOf_markUploaded: "statusOf q (markUploaded p us) \<longleftrightarrow> q = p \<or> statusOf q us"
  by (cases p; cases q) (simp_all add: statusOf_def markUploaded_def)

lemma isAllSuccess_all_skipped: "\<forall>r \<in> set rs. skipped r \<Longrightarrow> isAllSuccess rs enabled"
  by (induction rs) simp_all

section \<open>The status vector\<close>

lemma run_status:
  "(\<forall>q. statusOf q (upload_status (currentMetadata (snd (runFilePair w config fp)))) \<longleftrightarrow>
        statusOf q (upload_status (metadata fp))
        \<or> (\<exists>r \<in> set (results (snd (runFilePair w config fp))).
              platform r = q \<and> success r \<and> \<not> skipped r))
   \<and> (\<forall>r \<in> set (results (snd (runFilePair w config fp))).
        success r \<and> \<not> skipped r \<longrightarrow> \<not> statusOf (platform r) (upload_status (metadata fp)))
   \<and> title (currentMetadata (snd (runFilePair w config fp))) = title (metadata fp)
   \<and> description (currentMetadata (snd (runFilePair w config fp))) = description (metadata fp)
   \<and> tags (currentMetadata (snd (runFilePair w config fp))) = tags (metadata fp)"
proof -
  let ?I = "\<lambda>st::run_state.
     (\<forall>q. statusOf q (upload_status (currentMetadata st)) \<longleftrightarrow>
        statusOf q (upload_status (metadata fp))
        \<or> (\<exists>r \<in> set (results st). platform r = q \<and> success r \<and> \<not> skipped r))
   \<and> (\<forall>r \<in> set (results st).
        success r \<and> \<not> skipped r \<longrightarrow> \<not> statusOf (platform r) (upload_status (metadata fp)))
   \<and> title (currentMetadata st) = title (metadata fp)
   \<and> description (currentMetadata st) = description (metadata fp)
   \<and> tags (currentMetadata st) = tags (metadata fp)"
  have call: "triple ?I (call ev out) ?I ?I" for ev and out :: "'a outcome"
    by (rule triple_snd) (simp add: snd_call)
  have step: "triple ?I (uploadStep w config fp p) ?I ?I" for p
  proof (rule triple_snd)
    fix st :: run_state
    assume i: "?I st"
    let ?r = "publish w config p (currentMetadata st)"
    show "?I (snd (uploadStep w config fp p st)) \<and> ?I (snd (uploadStep w config fp p st))"
    proof (cases "success ?r \<and> \<not> skipped ?r")
      case True
      then have fresh: "\<not> statusOf p (upload_status (currentMetadata st))"
        using publish_success_fresh by blast
      with i have "\<not> statusOf p (upload_status (metadata fp))" by blast
      with True i show ?thesis
        by (auto simp: snd_uploadStep statusOf_markUploaded platform_publish)
    next
      case False
      with i show ?thesis
        by (auto simp: snd_uploadStep)
    qed
  qed
  have last: "triple ?I (phase4 w config fp) ?I ?I"
    by (rule triple_snd) (simp add: phase4_state)
  show ?thesis
    by (rule triple_run_final[where E = ?I and ?P0.0 = ?I, OF call step step call step step last])
       (simp add: initialState_def)
qed

text \<open>
  C9. The flags of \<open>upload_status\<close> change in the four blocks of Phase 3 only. In the block
  of platform \<open>p\<close>, from any state: when the publisher reports a success without skip, the
  flag of \<open>p\<close> was false, it becomes true, and no other flag changes; when it reports a
  failure or a skip, the metadata is left as it was. Over the whole processing of a file
  pair: a flag is true at the end exactly when it was true at the start or the results
  hold a success without skip of its platform; such a result exists only for a platform
  whose flag was false at the start; title, description and tags are unchanged.
\<close>

theorem status_vector_invariant:
  "(success (publish w config p (currentMetadata st))
      \<and> \<not> skipped (publish w config p (currentMetadata st)) \<longrightarrow>
      \<not> statusOf p (upload_status (currentMetadata st))
      \<and> statusOf p (upload_status (currentMetadata (snd (uploadStep w config fp p st))))
      \<and> (\<forall>q. q \<noteq> p \<longrightarrow>
            statusOf q (upload_status (currentMetadata (snd (uploadStep w config fp p st))))
            = statusOf q (upload_status (currentMetadata st))))
   \<and> (\<not> success (publish w config p (currentMetadata st))
      \<or> skipped (publish w config p (currentMetadata st)) \<longrightarrow>
      currentMetadata (snd (uploadStep w config fp p st)) = currentMetadata st)
   \<and> (\<forall>q. statusOf q (upload_status (currentMetadata (snd (runFilePair w config fp)))) \<longleftrightarrow>
        statusOf q (upload_status (metadata fp))
        \<or> (\<exists>r \<in> set (results (snd (runFilePair w config fp))).
              platform r = q \<and> success r \<and> \<not> skipped r))
   \<and> (\<forall>r \<in> set (results (snd (runFilePair w config fp))).
        success r \<and> \<not> skipped r \<longrightarrow> \<not> statusOf (platform r) (upload_status (metadata fp)))
   \<and> title (currentMetadata (snd (runFilePair w config fp))) = title (metadata fp)
   \<and> description (currentMetadata (snd (runFilePair w config fp))) = description (metadata fp)
   \<and> tags (currentMetadata (snd (runFilePair w config fp))) = tags (metadata fp)"
proof -
  have block_success:
    "\<not> statusOf p (upload_status (currentMetadata st))
      \<and> statusOf p (upload_status (currentMetadata (snd (uploadStep w config fp p st))))
      \<and> (\<forall>q. q \<noteq> p \<longrightarrow>
            statusOf q (upload_status (currentMetadata (snd (uploadStep w config fp p st))))
            = statusOf q (upload_status (currentMetadata st)))"
    if "success (publish w config p (currentMetadata st))
      \<and> \<not> skipped (publish w config p (currentMetadata st))"
    using that publish_success_fresh[of w config p "currentMetadata st"]
    by (simp add: snd_uploadStep statusOf_markUploaded)
  have block_other:
    "currentMetadata (snd (uploadStep w config fp p st)) = currentMetadata st"
    if "\<not> success (publish w config p (currentMetadata st))
      \<or> skipped (publish w config p (currentMetadata st))"
    using that by (auto simp: snd_uploadStep)
  from block_success block_other run_status[of w config fp] show ?thesis
    by blast
qed

theorem status_vector_invariant_witness:
  "success (publish calmApis sampleConfig YouTube sampleMetadata)
   \<and> \<not> skipped (publish calmApis sampleConfig YouTube sampleMetadata)
   \<and> \<not> statusOf YouTube (upload_status sampleMetadata)
   \<and> statusOf YouTube (upload_status (currentMetadata
        (snd (uploadStep calmApis sampleConfig sampleFilePair YouTube
           (initialState sampleFilePair)))))
   \<and> skipped (publish calmApis sampleConfig X sampleMetadata)
   \<and> currentMetadata (snd (uploadStep calmApis sampleConfig sampleFilePair X
        (initialState sampleFilePair))) = sampleMetadata
   \<and> statusOf YouTube
        (upload_status (currentMetadata (snd (runFilePair calmApis sampleConfig sampleFilePair))))
   \<and> \<not> statusOf X
        (upload_status (currentMetadata (snd (runFilePair calmApis sampleConfig sampleFilePair))))"
proof -
  have cm: "currentMetadata (initialState sampleFilePair) = sampleMetadata"
    by (simp add: initialState_def sampleFilePair_def)
  have yt: "publish calmApis sampleConfig YouTube sampleMetadata
      = \<lparr>platform = YouTube, success = True, skipped = False, error = None\<rparr>"
    by (simp add: run_defs calmApis_def sampleMetadata_def)
  have xx: "publish calmApis sampleConfig X sampleMetadata
      = \<lparr>platform = X, success = False, skipped = True, error = None\<rparr>"
    by (simp add: run_defs sampleConfig_def)
  have res: "results (snd (runFilePair calmApis sampleConfig sampleFilePair)) =
        [\<lparr>platform = YouTube, success = True, skipped = False, error = None\<rparr>,
         \<lparr>platform = TikTok, success = True, skipped = False, error = None\<rparr>,
         \<lparr>platform = Instagram, success = True, skipped = False, error = None\<rparr>,
         \<lparr>platform = X, success = False, skipped = True, error = None\<rparr>]"
    by (simp add: run_defs calmApis_def sampleConfig_def sampleFilePair_def sampleMetadata_def)
  have ini: "\<not> statusOf X (upload_status (metadata sampleFilePair))"
    by (simp add: statusOf_def sampleFilePair_def sampleMetadata_def)
  note t1 = status_vector_invariant[of calmApis sampleConfig YouTube
      "initialState sampleFilePair" sampleFilePair]
  note t2 = status_vector_invariant[of calmApis sampleConfig X
      "initialState sampleFilePair" sampleFilePair]
  from t1 yt cm have a: "\<not> statusOf YouTube (upload_status sampleMetadata)
     \<and> statusOf YouTube (upload_status (currentMetadata
        (snd (uploadStep calmApis sampleConfig sampleFilePair YouTube
           (initialState sampleFilePair)))))"
    by simp
  from t2 xx cm have b: "currentMetadata (snd (uploadStep calmApis sampleConfig sampleFilePair X
        (initialState sampleFilePair))) = sampleMetadata"
    by simp
  from t1 res have c: "statusOf YouTube
        (upload_status (currentMetadata (snd (runFilePair calmApis sampleConfig sampleFilePair))))"
    by simp
  from t1 res ini have d: "\<not> statusOf X
        (upload_status (currentMetadata (snd (runFilePair calmApis sampleConfig sampleFilePair))))"
    by simp
  from a b c d yt xx show ?thesis by simp
qed

section \<open>Disposition\<close>

lemma run_disposition:
  "case allSuccess (snd (runFilePair w config fp)) of
     None \<Rightarrow>
       filter isFinalize (trace (snd (runFilePair w config fp))) = []
       \<and> filter isMove (trace (snd (runFilePair w config fp))) = []
   | Some b \<Rightarrow>
       b = isAllSuccess (results (snd (runFilePair w config fp))) (isXEnabled config)
       \<and> filter isFinalize (trace (snd (runFilePair w config fp)))
           = (if b then [MoveFilesToDone (videoFileId fp) (jsonFileId fp)] else [])
       \<and> (\<not> b \<longrightarrow> filter isMove (trace (snd (runFilePair w config fp))) = [])"
proof -
  let ?I = "\<lambda>st::run_state. allSuccess st = None
      \<and> filter isFinalize (trace st) = [] \<and> filter isMove (trace st) = []"
  let ?F = "\<lambda>st::run_state. case allSuccess st of
     None \<Rightarrow> filter isFinalize (trace st) = [] \<and> filter isMove (trace st) = []
   | Some b \<Rightarrow>
       b = isAllSuccess (results st) (isXEnabled config)
       \<and> filter isFinalize (trace st)
           = (if b then [MoveFilesToDone (videoFileId fp) (jsonFileId fp)] else [])
       \<and> (\<not> b \<longrightarrow> filter isMove (trace st) = [])"
  have call: "triple ?I (call ev out) ?I ?F"
    if "isFinalize ev = False" "isMove ev = False" for ev and out :: "'a outcome"
    by (rule triple_snd) (simp add: snd_call that)
  have step: "triple ?I (uploadStep w config fp p) ?I ?F" for p
    by (rule triple_snd) (simp add: snd_uploadStep)
  have last: "triple ?I (phase4 w config fp) ?F ?F"
    by (rule triple_snd) (simp add: phase4_state split: outcome.splits)
  have "?F (snd (runFilePair w config fp))"
    by (rule triple_run_final[where E = ?F and ?P0.0 = ?I, OF call step step call step step last])
       (simp_all add: initialState_def)
  then show ?thesis .
qed

lemma triple_returns:
  assumes "\<And>st. P st \<Longrightarrow> fst (f st) = Returns () \<and> Q (snd (f st))"
  shows "triple P f Q E"
proof (rule tripleI)
  fix st st' u assume "P st" "f st = (Returns u, st')"
  with assms[of st] show "Q st'" by simp
next
  fix st st' e assume "P st" "f st = (Throws e, st')"
  with assms[of st] show "E st'" by simp
qed

lemma fst_call: "fst (call ev out st) = (case out of Throws e \<Rightarrow> Throws e | Returns v \<Rightarrow> Returns ())"
  by (simp add: call_def)

lemma run_reaches_phase4:
  assumes dl: "drive_download w = Returns path" and sh: "drive_share w = Returns link"
    and up: "\<forall>p. drive_update w p = Returns ()"
  shows "allSuccess (snd (runFilePair w config fp)) \<noteq> None
    \<and> published (trace (snd (runFilePair w config fp))) = [YouTube, TikTok, Instagram, X]
    \<and> map platform (results (snd (runFilePair w config fp))) = [YouTube, TikTok, Instagram, X]"
proof -
  let ?P = "\<lambda>ps (st::run_state). allSuccess st = None \<and> published (trace st) = ps
      \<and> map platform (results st) = ps"
  let ?F = "\<lambda>st::run_state. allSuccess st \<noteq> None
      \<and> published (trace st) = [YouTube, TikTok, Instagram, X]
      \<and> map platform (results st) = [YouTube, TikTok, Instagram, X]"
  have download: "triple (?P []) (call (DownloadVideo (videoFileId fp)) (drive_download w))
      (?P []) ?F"
    by (rule triple_returns) (simp add: fst_call snd_call dl published_append)
  have share: "triple (?P [YouTube, TikTok])
      (call (GetVideoShareLink (videoFileId fp)) (drive_share w)) (?P [YouTube, TikTok]) ?F"
    by (rule triple_returns) (simp add: fst_call snd_call sh published_append)
  have s1: "triple (?P []) (uploadStep w config fp YouTube) (?P [YouTube]) ?F"
    by (rule triple_returns)
       (simp add: fst_uploadStep snd_uploadStep up published_append platform_publish)
  have s2: "triple (?P [YouTube]) (uploadStep w config fp TikTok) (?P [YouTube, TikTok]) ?F"
    by (rule triple_returns)
       (simp add: fst_uploadStep snd_uploadStep up published_append platform_publish)
  have s3: "triple (?P [YouTube, TikTok]) (uploadStep w config fp Instagram)
      (?P [YouTube, TikTok, Instagram]) ?F"
    by (rule triple_returns)
       (simp add: fst_uploadStep snd_uploadStep up published_append platform_publish)
  have s4: "triple (?P [YouTube, TikTok, Instagram]) (uploadStep w config fp X)
      (?P [YouTube, TikTok, Instagram, X]) ?F"
    by (rule triple_returns)
       (simp add: fst_uploadStep snd_uploadStep up published_append platform_publish)
  have last: "triple (?P [YouTube, TikTok, Instagram, X]) (phase4 w config fp) ?F ?F"
  proof (rule triple_snd)
    fix st :: run_state
    assume p: "?P [YouTube, TikTok, Instagram, X] st"
    obtain seg where s: "snd (phase4 w config fp st) =
        st\<lparr>allSuccess := Some (isAllSuccess (results st) (isXEnabled config)),
           trace := trace st @ seg\<rparr>" and q: "\<forall>e \<in> set seg. quiet e"
      using phase4_quiet by blast
    from p q show "?F (snd (phase4 w config fp st)) \<and> ?F (snd (phase4 w config fp st))"
      by (simp add: s published_append published_quiet)
  qed
  have "?F (snd (runFilePair w config fp))"
    by (rule triple_run_final[where E = ?F, OF download s1 s2 share s3 s4 last])
       (simp add: initialState_def)
  then show ?thesis .
qed

text \<open>
  C4. When Phase 4 is reached, \<open>allSuccess\<close> is the value of \<open>isAllSuccess\<close> on the results.
  If it is true, the trace holds exactly one call of \<open>moveFilesToDone\<close>, for this file
  pair; if it is false, the trace holds no call of \<open>moveFilesToDone\<close> and no request
  that moves a file. When an exception ends the processing before Phase 4, there is
  neither as well. (No request of the program deletes a file of the feed.) Phase 4 is
  reached whenever the Drive calls before it return.
\<close>

theorem disposition:
  "(allSuccess (snd (runFilePair w config fp)) = Some True \<longrightarrow>
      isAllSuccess (results (snd (runFilePair w config fp))) (isXEnabled config)
      \<and> filter isFinalize (trace (snd (runFilePair w config fp)))
          = [MoveFilesToDone (videoFileId fp) (jsonFileId fp)])
   \<and> (allSuccess (snd (runFilePair w config fp)) = Some False \<longrightarrow>
      \<not> isAllSuccess (results (snd (runFilePair w config fp))) (isXEnabled config)
      \<and> filter isFinalize (trace (snd (runFilePair w config fp))) = []
      \<and> filter isMove (trace (snd (runFilePair w config fp))) = [])
   \<and> (allSuccess (snd (runFilePair w config fp)) = None \<longrightarrow>
      filter isFinalize (trace (snd (runFilePair w config fp))) = []
      \<and> filter isMove (trace (snd (runFilePair w config fp))) = [])
   \<and> ((\<exists>path. drive_download w = Returns path) \<and> (\<exists>link. drive_share w = Returns link)
       \<and> (\<forall>p. drive_update w p = Returns ()) \<longrightarrow>
      allSuccess (snd (runFilePair w config fp)) \<noteq> None)"
proof -
  have reached: "allSuccess (snd (runFilePair w config fp)) \<noteq> None"
    if "(\<exists>path. drive_download w = Returns path) \<and> (\<exists>link. drive_share w = Returns link)
       \<and> (\<forall>p. drive_update w p = Returns ())"
    using that run_reaches_phase4[of w _ _ config fp] by blast
  from run_disposition[of w config fp] reached show ?thesis
    by (cases "allSuccess (snd (runFilePair w config fp))") auto
qed

theorem disposition_witness:
  "allSuccess (snd (runFilePair calmApis sampleConfig sampleFilePair)) = Some True
   \<and> filter isFinalize (trace (snd (runFilePair calmApis sampleConfig sampleFilePair)))
       = [MoveFilesToDone [0x31] [0x32]]
   \<and> allSuccess (snd (runFilePair youtubeDownApis sampleConfig sampleFilePair)) = Some False
   \<and> filter isFinalize (trace (snd (runFilePair youtubeDownApis sampleConfig sampleFilePair)))
       = []
   \<and> filter isMove (trace (snd (runFilePair youtubeDownApis sampleConfig sampleFilePair))) = []"
proof -
  have a: "allSuccess (snd (runFilePair calmApis sampleConfig sampleFilePair)) = Some True"
    by (simp add: run_defs calmApis_def sampleConfig_def sampleFilePair_def sampleMetadata_def)
  have b: "allSuccess (snd (runFilePair youtubeDownApis sampleConfig sampleFilePair))
      = Some False"
    by (simp add: run_defs youtubeDownApis_def calmApis_def sampleConfig_def sampleFilePair_def
        sampleMetadata_def)
  have ids: "videoFileId sampleFilePair = [0x31]" "jsonFileId sampleFilePair = [0x32]"
    by (simp_all add: sampleFilePair_def)
  from disposition[of calmApis sampleConfig sampleFilePair] a ids
  have c: "filter isFinalize (trace (snd (runFilePair calmApis sampleConfig sampleFilePair)))
       = [MoveFilesToDone [0x31] [0x32]]"
    by simp
  from disposition[of youtubeDownApis sampleConfig sampleFilePair] b
  have d: "filter isFinalize
        (trace (snd (runFilePair youtubeDownApis sampleConfig sampleFilePair))) = []
      \<and> filter isMove (trace (snd (runFilePair youtubeDownApis sampleConfig sampleFilePair))) = []"
    by simp
  from a b c d show ?thesis by simp
qed

section \<open>Idempotence\<close>

text \<open>
  C8. For a file pair whose four flags are already true, whatever the outside world does:
  every result produced is a skip, the trace holds no status write, the metadata after
  the run is the metadata of the file pair, and \<open>allSuccess\<close> is never false. When the two
  Drive calls made before the publishers (the download of the video and the share link)
  return, Phase 4 is reached with the four skips as results and \<open>allSuccess\<close> is true.
\<close>

theorem idempotent_rerun:
  assumes "us_youtube (upload_status (metadata fp))" and "us_tiktok (upload_status (metadata fp))"
    and "us_instagram (upload_status (metadata fp))" and "us_x (upload_status (metadata fp))"
  shows "(\<forall>r \<in> set (results (snd (runFilePair w config fp))). skipped r)
    \<and> filter isStatusWrite (trace (snd (runFilePair w config fp))) = []
    \<and> currentMetadata (snd (runFilePair w config fp)) = metadata fp
    \<and> allSuccess (snd (runFilePair w config fp)) \<noteq> Some False
    \<and> ((\<exists>path. drive_download w = Returns path) \<and> (\<exists>link. drive_share w = Returns link) \<longrightarrow>
         allSuccess (snd (runFilePair w config fp)) = Some True
         \<and> map platform (results (snd (runFilePair w config fp)))
             = [YouTube, TikTok, Instagram, X])"
proof -
  have flags: "statusOf p (upload_status (metadata fp))" for p
    using assms by (cases p) (simp_all add: statusOf_def)
  let ?I = "\<lambda>ps (st::run_state). (\<forall>r \<in> set (results st). skipped r)
      \<and> filter isStatusWrite (trace st) = [] \<and> currentMetadata st = metadata fp
      \<and> allSuccess st = None \<and> map platform (results st) = ps"
  let ?F = "\<lambda>st::run_state. (\<forall>r \<in> set (results st). skipped r)
    \<and> filter isStatusWrite (trace st) = []
    \<and> currentMetadata st = metadata fp
    \<and> allSuccess st \<noteq> Some False
    \<and> ((\<exists>path. drive_download w = Returns path) \<and> (\<exists>link. drive_share w = Returns link) \<longrightarrow>
         allSuccess st = Some True \<and> map platform (results st) = [YouTube, TikTok, Instagram, X])"
  have download: "triple (?I []) (call (DownloadVideo (videoFileId fp)) (drive_download w))
      (?I []) ?F"
  proof (rule tripleI)
    fix st st' :: run_state and u
    assume "?I [] st" "call (DownloadVideo (videoFileId fp)) (drive_download w) st = (Returns u, st')"
    then show "?I [] st'" by (auto simp: call_def)
  next
    fix st st' :: run_state and e
    assume "?I [] st" "call (DownloadVideo (videoFileId fp)) (drive_download w) st = (Throws e, st')"
    then show "?F st'" by (auto simp: call_def split: outcome.splits)
  qed
  have share: "triple (?I [YouTube, TikTok])
      (call (GetVideoShareLink (videoFileId fp)) (drive_share w)) (?I [YouTube, TikTok]) ?F"
  proof (rule tripleI)
    fix st st' :: run_state and u
    assume "?I [YouTube, TikTok] st"
      "call (GetVideoShareLink (videoFileId fp)) (drive_share w) st = (Returns u, st')"
    then show "?I [YouTube, TikTok] st'" by (auto simp: call_def)
  next
    fix st st' :: run_state and e
    assume "?I [YouTube, TikTok] st"
      "call (GetVideoShareLink (videoFileId fp)) (drive_share w) st = (Throws e, st')"
    then show "?F st'" by (auto simp: call_def split: outcome.splits)
  qed
  have step: "fst (uploadStep w config fp p st) = Returns ()
      \<and> ?I (ps @ [p]) (snd (uploadStep w config fp p st))" if "?I ps st" for p ps st
  proof -
    from that have "currentMetadata st = metadata fp" by simp
    with flags[of p] have "skipped (publish w config p (currentMetadata st))"
      by (simp add: publish_done_skipped)
    with that show ?thesis
      by (simp add: fst_uploadStep snd_uploadStep platform_publish)
  qed
  have s1: "triple (?I []) (uploadStep w config fp YouTube) (?I [YouTube]) ?F"
    by (rule triple_returns) (use step[where ps = "[]" and p = YouTube] in simp)
  have s2: "triple (?I [YouTube]) (uploadStep w config fp TikTok) (?I [YouTube, TikTok]) ?F"
    by (rule triple_returns) (use step[where ps = "[YouTube]" and p = TikTok] in simp)
  have s3: "triple (?I [YouTube, TikTok]) (uploadStep w config fp Instagram)
      (?I [YouTube, TikTok, Instagram]) ?F"
    by (rule triple_returns) (use step[where ps = "[YouTube, TikTok]" and p = Instagram] in simp)
  have s4: "triple (?I [YouTube, TikTok, Instagram]) (uploadStep w config fp X)
      (?I [YouTube, TikTok, Instagram, X]) ?F"
    by (rule triple_returns) (use step[where ps = "[YouTube, TikTok, Instagram]" and p = X] in simp)
  have last: "triple (?I [YouTube, TikTok, Instagram, X]) (phase4 w config fp) ?F ?F"
  proof (rule triple_snd)
    fix st :: run_state
    assume i: "?I [YouTube, TikTok, Instagram, X] st"
    then have ok: "isAllSuccess (results st) (isXEnabled config)"
      by (simp add: isAllSuccess_all_skipped)
    obtain seg where s: "snd (phase4 w config fp st) =
        st\<lparr>allSuccess := Some (isAllSuccess (results st) (isXEnabled config)),
           trace := trace st @ seg\<rparr>" and q: "\<forall>e \<in> set seg. quiet e"
      using phase4_quiet by blast
    from q have "filter isStatusWrite seg = []"
      by (induction seg rule: published.induct) simp_all
    with i ok show "?F (snd (phase4 w config fp st)) \<and> ?F (snd (phase4 w config fp st))"
      by (simp add: s)
  qed
  have "?F (snd (runFilePair w config fp))"
    by (rule triple_run_final[where E = ?F, OF download s1 s2 share s3 s4 last])
       (simp add: initialState_def)
  then show ?thesis .
qed

theorem idempotent_rerun_witness:
  "us_youtube (upload_status (metadata doneFilePair))
   \<and> us_tiktok (upload_status (metadata doneFilePair))
   \<and> us_instagram (upload_status (metadata doneFilePair))
   \<and> us_x (upload_status (metadata doneFilePair))
   \<and> allSuccess (snd (runFilePair calmApis sampleConfig doneFilePair)) = Some True
   \<and> map platform (results (snd (runFilePair calmApis sampleConfig doneFilePair)))
       = [YouTube, TikTok, Instagram, X]
   \<and> filter isStatusWrite (trace (snd (runFilePair calmApis sampleConfig doneFilePair))) = []
   \<and> currentMetadata (snd (runFilePair calmApis sampleConfig doneFilePair))
       = metadata doneFilePair"
proof -
  have flags: "us_youtube (upload_status (metadata doneFilePair))"
    "us_tiktok (upload_status (metadata doneFilePair))"
    "us_instagram (upload_status (metadata doneFilePair))"
    "us_x (upload_status (metadata doneFilePair))"
    by (simp_all add: doneFilePair_def)
  have drive: "\<exists>path. drive_download calmApis = Returns path"
    "\<exists>link. drive_share calmApis = Returns link"
    by (simp_all add: calmApis_def)
  from idempotent_rerun[OF flags, of calmApis sampleConfig] drive flags
  show ?thesis by simp
qed

section \<open>Isolation of a platform's failure\<close>

lemma pollStatus_never_ready:
  "\<forall>j. i \<le> j \<and> j < i + n \<longrightarrow> status j = Returns OtherStatus \<Longrightarrow>
   pollStatus status i n = Returns False"
proof (induction n arbitrary: i)
  case 0
  show ?case by simp
next
  case (Suc n)
  from Suc.prems have here: "status i = Returns OtherStatus" by simp
  from Suc.prems have "\<forall>j. Suc i \<le> j \<and> j < Suc i + n \<longrightarrow> status j = Returns OtherStatus"
    by simp
  then have "pollStatus status (Suc i) n = Returns False" by (rule Suc.IH)
  with here show ?case by simp
qed

text \<open>
  C3. An exception thrown by the body of a publisher's \<open>try\<close> block becomes the result
  \<open>{platform, success: false, skipped: false, error: message}\<close> of that publisher, for each of
  the four publishers; this covers the errors the body throws itself, such as the timeout
  of the Instagram status loop after \<open>MAX_STATUS_CHECKS\<close> rounds, an ERROR status, or a
  TikTok token response without a token. A publisher returns a result in every case, so
  the block of a platform whose result is a failure completes without an exception and
  without a change of the metadata, and main goes on to the next statement. When the
  Drive calls of the driver return, all four publishers are called, in order, whatever
  the platforms' calls do.
\<close>

theorem failure_isolation:
  "(\<not> us_youtube (upload_status md) \<and> youtubeAttempt w = Throws e \<longrightarrow>
      uploadToYouTube w md =
        \<lparr>platform = YouTube, success = False, skipped = False, error = Some (errorMessage e)\<rparr>)
   \<and> (\<not> us_tiktok (upload_status md) \<and> tiktokAttempt w = Throws e \<longrightarrow>
      uploadToTikTok w md =
        \<lparr>platform = TikTok, success = False, skipped = False, error = Some (errorMessage e)\<rparr>)
   \<and> (\<not> us_instagram (upload_status md) \<and> instagramAttempt w = Throws e \<longrightarrow>
      uploadToInstagram w md =
        \<lparr>platform = Instagram, success = False, skipped = False,
         error = Some (errorMessage e)\<rparr>)
   \<and> (enabled \<and> xc \<noteq> None \<and> \<not> us_x (upload_status md) \<and> xAttempt w md = Throws e \<longrightarrow>
      uploadToX w xc enabled md =
        \<lparr>platform = X, success = False, skipped = False, error = Some (errorMessage e)\<rparr>)
   \<and> ((\<exists>c. ig_container w = Returns c)
        \<and> (\<forall>i. i < MAX_STATUS_CHECKS \<longrightarrow> ig_status w i = Returns OtherStatus) \<longrightarrow>
      instagramAttempt w = Throws (JsError IgContainerTimeout))
   \<and> ((\<exists>c. ig_container w = Returns c) \<and> ig_status w 0 = Returns ERROR \<longrightarrow>
      instagramAttempt w = Throws (JsError IgContainerError))
   \<and> (tt_token w = Returns response \<and> access_token response = None \<longrightarrow>
      tiktokAttempt w = Throws (JsError (TikTokTokenFailed (token_data response))))
   \<and> (\<not> success (publish w config p (currentMetadata st)) \<longrightarrow>
      fst (uploadStep w config fp p st) = Returns ()
      \<and> currentMetadata (snd (uploadStep w config fp p st)) = currentMetadata st
      \<and> results (snd (uploadStep w config fp p st))
          = results st @ [publish w config p (currentMetadata st)])
   \<and> ((\<exists>path. drive_download w = Returns path) \<and> (\<exists>link. drive_share w = Returns link)
       \<and> (\<forall>q. drive_update w q = Returns ()) \<longrightarrow>
      published (trace (snd (runFilePair w config fp))) = [YouTube, TikTok, Instagram, X]
      \<and> map platform (results (snd (runFilePair w config fp)))
          = [YouTube, TikTok, Instagram, X])"
proof (intro conjI)
  show "\<not> us_youtube (upload_status md) \<and> youtubeAttempt w = Throws e \<longrightarrow>
      uploadToYouTube w md =
        \<lparr>platform = YouTube, success = False, skipped = False, error = Some (errorMessage e)\<rparr>"
    by (simp add: uploadToYouTube_def tryCatch_def)
  show "\<not> us_tiktok (upload_status md) \<and> tiktokAttempt w = Throws e \<longrightarrow>
      uploadToTikTok w md =
        \<lparr>platform = TikTok, success = False, skipped = False, error = Some (errorMessage e)\<rparr>"
    by (simp add: uploadToTikTok_def tryCatch_def)
  show "\<not> us_instagram (upload_status md) \<and> instagramAttempt w = Throws e \<longrightarrow>
      uploadToInstagram w md =
        \<lparr>platform = Instagram, success = False, skipped = False,
         error = Some (errorMessage e)\<rparr>"
    by (simp add: uploadToInstagram_def tryCatch_def)
  show "enabled \<and> xc \<noteq> None \<and> \<not> us_x (upload_status md) \<and> xAttempt w md = Throws e \<longrightarrow>
      uploadToX w xc enabled md =
        \<lparr>platform = X, success = False, skipped = False, error = Some (errorMessage e)\<rparr>"
    by (simp add: uploadToX_def tryCatch_def)
  show "(\<exists>c. ig_container w = Returns c)
        \<and> (\<forall>i. i < MAX_STATUS_CHECKS \<longrightarrow> ig_status w i = Returns OtherStatus) \<longrightarrow>
      instagramAttempt w = Throws (JsError IgContainerTimeout)"
  proof
    assume h: "(\<exists>c. ig_container w = Returns c)
        \<and> (\<forall>i. i < MAX_STATUS_CHECKS \<longrightarrow> ig_status w i = Returns OtherStatus)"
    then have "pollStatus (ig_status w) 0 MAX_STATUS_CHECKS = Returns False"
      by (intro pollStatus_never_ready) simp
    with h show "instagramAttempt w = Throws (JsError IgContainerTimeout)"
      by (auto simp: instagramAttempt_def andThen_def)
  qed
  show "(\<exists>c. ig_container w = Returns c) \<and> ig_status w 0 = Returns ERROR \<longrightarrow>
      instagramAttempt w = Throws (JsError IgContainerError)"
    by (auto simp: instagramAttempt_def andThen_def MAX_STATUS_CHECKS_def pollStatus_numeral)
  show "tt_token w = Returns response \<and> access_token response = None \<longrightarrow>
      tiktokAttempt w = Throws (JsError (TikTokTokenFailed (token_data response)))"
    by (simp add: tiktokAttempt_def getAccessToken_def andThen_def)
  show "\<not> success (publish w config p (currentMetadata st)) \<longrightarrow>
      fst (uploadStep w config fp p st) = Returns ()
      \<and> currentMetadata (snd (uploadStep w config fp p st)) = currentMetadata st
      \<and> results (snd (uploadStep w config fp p st))
          = results st @ [publish w config p (currentMetadata st)]"
    by (simp add: fst_uploadStep snd_uploadStep)
  show "(\<exists>path. drive_download w = Returns path) \<and> (\<exists>link. drive_share w = Returns link)
       \<and> (\<forall>q. drive_update w q = Returns ()) \<longrightarrow>
      published (trace (snd (runFilePair w config fp))) = [YouTube, TikTok, Instagram, X]
      \<and> map platform (results (snd (runFilePair w config fp)))
          = [YouTube, TikTok, Instagram, X]"
    using run_reaches_phase4[of w _ _ config fp] by blast
qed

theorem failure_isolation_witness:
  "uploadToYouTube youtubeDownApis sampleMetadata =
     \<lparr>platform = YouTube, success = False, skipped = False, error = Some (Text [0x65])\<rparr>
   \<and> fst (uploadStep youtubeDownApis sampleConfig sampleFilePair YouTube
        (initialState sampleFilePair)) = Returns ()
   \<and> published (trace (snd (runFilePair youtubeDownApis sampleConfig sampleFilePair)))
       = [YouTube, TikTok, Instagram, X]
   \<and> instagramAttempt (calmApis\<lparr>ig_status := (\<lambda>i. Returns OtherStatus)\<rparr>)
       = Throws (JsError IgContainerTimeout)"
proof -
  note t = failure_isolation[where w = youtubeDownApis and md = sampleMetadata
      and e = "JsError (Text [0x65])" and config = sampleConfig and fp = sampleFilePair
      and p = YouTube and st = "initialState sampleFilePair"]
  note u = failure_isolation[where w = "calmApis\<lparr>ig_status := (\<lambda>i. Returns OtherStatus)\<rparr>"]
  have a: "\<not> us_youtube (upload_status sampleMetadata)
      \<and> youtubeAttempt youtubeDownApis = Throws (JsError (Text [0x65]))"
    by (simp add: sampleMetadata_def youtubeAttempt_def youtubeDownApis_def)
  have b: "\<not> success (publish youtubeDownApis sampleConfig YouTube
      (currentMetadata (initialState sampleFilePair)))"
    by (simp add: publish_def uploadToYouTube_def youtubeAttempt_def tryCatch_def
        initialState_def youtubeDownApis_def sampleFilePair_def sampleMetadata_def)
  have c: "(\<exists>path. drive_download youtubeDownApis = Returns path)
      \<and> (\<exists>link. drive_share youtubeDownApis = Returns link)
      \<and> (\<forall>q. drive_update youtubeDownApis q = Returns ())"
    by (simp add: youtubeDownApis_def calmApis_def)
  have d: "(\<exists>c. ig_container (calmApis\<lparr>ig_status := (\<lambda>i. Returns OtherStatus)\<rparr>) = Returns c)
      \<and> (\<forall>i. i < MAX_STATUS_CHECKS \<longrightarrow>
       ig_status (calmApis\<lparr>ig_status := (\<lambda>i. Returns OtherStatus)\<rparr>) i = Returns OtherStatus)"
    by (simp add: calmApis_def)
  have w1: "uploadToYouTube youtubeDownApis sampleMetadata =
     \<lparr>platform = YouTube, success = False, skipped = False, error = Some (Text [0x65])\<rparr>"
    using t[THEN conjunct1, rule_format, OF a] by simp
  have w2: "fst (uploadStep youtubeDownApis sampleConfig sampleFilePair YouTube
        (initialState sampleFilePair)) = Returns ()"
    using t[THEN conjunct2, THEN conjunct2, THEN conjunct2, THEN conjunct2, THEN conjunct2, THEN conjunct2, THEN conjunct2, THEN conjunct1, rule_format, OF b]
    by (rule conjunct1)
  have w3: "published (trace (snd (runFilePair youtubeDownApis sampleConfig sampleFilePair)))
       = [YouTube, TikTok, Instagram, X]"
    using t[THEN conjunct2, THEN conjunct2, THEN conjunct2, THEN conjunct2, THEN conjunct2, THEN conjunct2, THEN conjunct2, THEN conjunct2, rule_format, OF c]
    by (rule conjunct1)
  have w4: "instagramAttempt (calmApis\<lparr>ig_status := (\<lambda>i. Returns OtherStatus)\<rparr>)
       = Throws (JsError IgContainerTimeout)"
    by (rule u[THEN conjunct2, THEN conjunct2, THEN conjunct2, THEN conjunct2, THEN conjunct1, rule_format, OF d])
  from w1 w2 w3 w4 show ?thesis by (intro conjI)
qed

section \<open>The two reasons of a skip\<close>

text \<open>
  C6. A publisher skips a platform already marked done with the result
  \<open>{success: true, skipped: true}\<close>; this holds for YouTube, TikTok and Instagram, and for
  X when it is enabled. \<open>uploadToX\<close> skips a disabled X (the flag off, or no configuration)
  with \<open>{success: false, skipped: true}\<close>, whatever the status vector. These are the only
  skips: a result is a skip exactly when the platform is marked done or, for X, disabled;
  and a skipped result has \<open>success = true\<close> exactly when it is a skip of the first kind.
\<close>

theorem skip_results:
  "(us_youtube (upload_status md) \<longrightarrow>
      uploadToYouTube w md =
        \<lparr>platform = YouTube, success = True, skipped = True, error = None\<rparr>)
   \<and> (us_tiktok (upload_status md) \<longrightarrow>
      uploadToTikTok w md =
        \<lparr>platform = TikTok, success = True, skipped = True, error = None\<rparr>)
   \<and> (us_instagram (upload_status md) \<longrightarrow>
      uploadToInstagram w md =
        \<lparr>platform = Instagram, success = True, skipped = True, error = None\<rparr>)
   \<and> (enabled \<and> xc \<noteq> None \<and> us_x (upload_status md) \<longrightarrow>
      uploadToX w xc enabled md =
        \<lparr>platform = X, success = True, skipped = True, error = None\<rparr>)
   \<and> (\<not> enabled \<or> xc = None \<longrightarrow>
      uploadToX w xc enabled md =
        \<lparr>platform = X, success = False, skipped = True, error = None\<rparr>)
   \<and> (skipped (uploadToYouTube w md) \<longleftrightarrow> us_youtube (upload_status md))
   \<and> (skipped (uploadToTikTok w md) \<longleftrightarrow> us_tiktok (upload_status md))
   \<and> (skipped (uploadToInstagram w md) \<longleftrightarrow> us_instagram (upload_status md))
   \<and> (skipped (uploadToX w xc enabled md) \<longleftrightarrow>
        \<not> enabled \<or> xc = None \<or> us_x (upload_status md))
   \<and> (skipped (uploadToX w xc enabled md) \<longrightarrow>
        (success (uploadToX w xc enabled md) \<longleftrightarrow> enabled \<and> xc \<noteq> None))"
  by (simp add: uploadToYouTube_def uploadToTikTok_def uploadToInstagram_def uploadToX_def
      alreadyUploaded_def tryCatch_def split: outcome.splits)

theorem skip_results_witness:
  "uploadToYouTube calmApis (metadata doneFilePair) =
     \<lparr>platform = YouTube, success = True, skipped = True, error = None\<rparr>
   \<and> uploadToX calmApis
        (Some \<lparr>apiKey = [0x6B], apiSecret = [0x73], accessToken = [0x74],
               accessTokenSecret = [0x75]\<rparr>) True (metadata doneFilePair) =
     \<lparr>platform = X, success = True, skipped = True, error = None\<rparr>
   \<and> uploadToX calmApis None False (metadata doneFilePair) =
     \<lparr>platform = X, success = False, skipped = True, error = None\<rparr>
   \<and> \<not> skipped (uploadToX calmApis
        (Some \<lparr>apiKey = [0x6B], apiSecret = [0x73], accessToken = [0x74],
               accessTokenSecret = [0x75]\<rparr>) True sampleMetadata)"
proof -
  have flags: "us_youtube (upload_status (metadata doneFilePair))"
    "us_x (upload_status (metadata doneFilePair))" "\<not> us_x (upload_status sampleMetadata)"
    by (simp_all add: doneFilePair_def sampleMetadata_def)
  note t1 = skip_results[where w = calmApis and md = "metadata doneFilePair" and enabled = True
      and xc = "Some \<lparr>apiKey = [0x6B], apiSecret = [0x73], accessToken = [0x74],
               accessTokenSecret = [0x75]\<rparr>"]
  note t2 = skip_results[where w = calmApis and md = "metadata doneFilePair" and enabled = False
      and xc = None]
  note t3 = skip_results[where w = calmApis and md = sampleMetadata and enabled = True
      and xc = "Some \<lparr>apiKey = [0x6B], apiSecret = [0x73], accessToken = [0x74],
               accessTokenSecret = [0x75]\<rparr>"]
  from t1 t2 t3 flags show ?thesis by simp
qed

section \<open>The text of the tweet\<close>

text \<open>
  C10. The text given to the tweet request is \<open>title + "\n\n" + description\<close> when that has at
  most 280 code units, and otherwise its first 277 code units followed by \<open>"..."\<close>; it
  never has more than 280 code units, and in the second case it has exactly 280.
  \<open>uploadToX\<close> gives this text to the tweet request: when X is enabled and not yet done,
  its result is a success exactly when the media upload returns and the tweet request
  for this text returns.
\<close>

theorem tweet_text_bound:
  "truncatedText md =
     (if length (title md @ [0x0A, 0x0A] @ description md) \<le> 280
      then title md @ [0x0A, 0x0A] @ description md
      else take 277 (title md @ [0x0A, 0x0A] @ description md) @ [0x2E, 0x2E, 0x2E])
   \<and> length (truncatedText md) \<le> 280
   \<and> (if length (title md @ [0x0A, 0x0A] @ description md) \<le> 280
       then length (truncatedText md) = length (title md) + 2 + length (description md)
       else length (truncatedText md) = 280)
   \<and> (if enabled \<and> xc \<noteq> None \<and> \<not> us_x (upload_status md)
       then success (uploadToX w xc enabled md) \<longleftrightarrow>
            (\<exists>mediaId tweet. x_uploadMedia w = Returns mediaId
               \<and> x_tweet w (truncatedText md) = Returns tweet)
       else skipped (uploadToX w xc enabled md))"
proof -
  let ?t = "title md @ [0x0A, 0x0A] @ description md"
  have shape: "truncatedText md = (if length ?t \<le> 280 then ?t else take 277 ?t @ [0x2E, 0x2E, 0x2E])"
    by (simp add: truncatedText_def tweetText_def)
  have len: "length (truncatedText md) \<le> 280"
    "if length ?t \<le> 280 then length (truncatedText md) = length (title md) + 2 + length (description md)
     else length (truncatedText md) = 280"
    unfolding shape by (auto simp: min_def)
  have post: "if enabled \<and> xc \<noteq> None \<and> \<not> us_x (upload_status md)
       then success (uploadToX w xc enabled md) \<longleftrightarrow>
            (\<exists>mediaId tweet. x_uploadMedia w = Returns mediaId
               \<and> x_tweet w (truncatedText md) = Returns tweet)
       else skipped (uploadToX w xc enabled md)"
    by (cases "x_uploadMedia w"; cases "x_tweet w (truncatedText md)")
       (simp_all add: uploadToX_def xAttempt_def tryCatch_def andThen_def alreadyUploaded_def)
  from shape len post show ?thesis by simp
qed

theorem tweet_text_bound_witness:
  "truncatedText sampleMetadata = [0x61, 0x0A, 0x0A, 0x62]
   \<and> truncatedText (sampleMetadata\<lparr>title := replicate 300 0x61\<rparr>)
       = replicate 277 0x61 @ [0x2E, 0x2E, 0x2E]
   \<and> length (truncatedText (sampleMetadata\<lparr>title := replicate 300 0x61\<rparr>)) = 280
   \<and> skipped (uploadToX calmApis None False sampleMetadata)"
proof -
  note t1 = tweet_text_bound[where md = sampleMetadata and enabled = False and xc = None
      and w = calmApis]
  note t2 = tweet_text_bound[where md = "sampleMetadata\<lparr>title := replicate 300 0x61\<rparr>"
      and enabled = False and xc = None and w = calmApis]
  have a: "title sampleMetadata = [0x61]" "description sampleMetadata = [0x62]"
    by (simp_all add: sampleMetadata_def)
  have b: "take 277 (replicate 300 (0x61 :: 16 word)) = replicate 277 0x61"
    by simp
  from t1 a have c: "truncatedText sampleMetadata = [0x61, 0x0A, 0x0A, 0x62]
      \<and> skipped (uploadToX calmApis None False sampleMetadata)"
    by simp
  from t2 a b have d: "truncatedText (sampleMetadata\<lparr>title := replicate 300 0x61\<rparr>)
       = replicate 277 0x61 @ [0x2E, 0x2E, 0x2E]
     \<and> length (truncatedText (sampleMetadata\<lparr>title := replicate 300 0x61\<rparr>)) = 280"
    by simp
  from c d show ?thesis by simp
qed

section \<open>The credentials of X\<close>

lemma loadXConfig_cases:
  "(xKeysSet env = 0 \<longrightarrow> loadXConfig env = (None, []))
   \<and> (0 < xKeysSet env \<and> xKeysSet env < 4 \<longrightarrow> loadXConfig env = (None, [XKeysPartiallySet]))
   \<and> (xKeysSet env = 4 \<longrightarrow>
        (\<exists>c. loadXConfig env = (Some c, [])
           \<and> getOptionalEnv env ''X_API_KEY'' = Some (apiKey c)
           \<and> getOptionalEnv env ''X_API_SECRET'' = Some (apiSecret c)
           \<and> getOptionalEnv env ''X_ACCESS_TOKEN'' = Some (accessToken c)
           \<and> getOptionalEnv env ''X_ACCESS_TOKEN_SECRET'' = Some (accessTokenSecret c)))
   \<and> xKeysSet env \<le> 4"
  by (cases "getOptionalEnv env ''X_API_KEY''"; cases "getOptionalEnv env ''X_API_SECRET''";
      cases "getOptionalEnv env ''X_ACCESS_TOKEN''";
      cases "getOptionalEnv env ''X_ACCESS_TOKEN_SECRET''")
     (simp_all add: loadXConfig_def xKeysSet_def xKeys_def)

lemma required_loaders:
  assumes "\<forall>key \<in> set requiredKeys. \<exists>v. getRequiredEnv env key = Returns v"
  shows "\<exists>dr yt tt ig ml. loadDriveConfig env = Returns dr \<and> loadYouTubeConfig env = Returns yt
      \<and> loadTikTokConfig env = Returns tt \<and> loadInstagramConfig env = Returns ig
      \<and> loadMailConfig env = Returns ml"
  using assms
  by (auto simp: requiredKeys_def loadDriveConfig_def loadYouTubeConfig_def loadTikTokConfig_def
      loadInstagramConfig_def loadMailConfig_def andThen_def)

lemma loadConfig_returns:
  assumes "\<forall>key \<in> set requiredKeys. \<exists>v. getRequiredEnv env key = Returns v"
  shows "\<exists>config. loadConfig env = (Returns config, snd (loadXConfig env))
      \<and> x config = fst (loadXConfig env)
      \<and> isXEnabled config = (fst (loadXConfig env) \<noteq> None)"
proof -
  from required_loaders[OF assms] obtain dr yt tt ig ml where
    "loadDriveConfig env = Returns dr" "loadYouTubeConfig env = Returns yt"
    "loadTikTokConfig env = Returns tt" "loadInstagramConfig env = Returns ig"
    "loadMailConfig env = Returns ml"
    by blast
  then show ?thesis
    by (cases "loadXConfig env") (simp add: loadConfig_def)
qed

text \<open>
  C7. A credential of X counts as set when its variable is defined and not blank. When one,
  two or three of the four are set, \<open>loadXConfig\<close> returns \<open>null\<close> and logs one warning; when
  none is set it returns \<open>null\<close> without a warning; when all four are set it returns the
  four trimmed values. It never throws: when the fourteen required variables are set,
  \<open>loadConfig\<close> returns a configuration whose \<open>x\<close> is the value of \<open>loadXConfig\<close> and whose
  \<open>isXEnabled\<close> is true exactly when all four are set, with the warnings of \<open>loadXConfig\<close>.
\<close>

theorem x_credentials_all_or_nothing:
  "(getOptionalEnv env key = None \<longleftrightarrow>
      env key = None \<or> (\<exists>v. env key = Some v \<and> trim v = []))
   \<and> (0 < xKeysSet env \<and> xKeysSet env < 4 \<longrightarrow> loadXConfig env = (None, [XKeysPartiallySet]))
   \<and> (xKeysSet env = 0 \<longrightarrow> loadXConfig env = (None, []))
   \<and> (xKeysSet env = 4 \<longrightarrow>
        (\<exists>c. loadXConfig env = (Some c, [])
           \<and> getOptionalEnv env ''X_API_KEY'' = Some (apiKey c)
           \<and> getOptionalEnv env ''X_API_SECRET'' = Some (apiSecret c)
           \<and> getOptionalEnv env ''X_ACCESS_TOKEN'' = Some (accessToken c)
           \<and> getOptionalEnv env ''X_ACCESS_TOKEN_SECRET'' = Some (accessTokenSecret c)))
   \<and> xKeysSet env \<le> 4
   \<and> ((\<forall>k \<in> set requiredKeys. \<exists>v. getRequiredEnv env k = Returns v) \<longrightarrow>
        (\<exists>config. loadConfig env = (Returns config, snd (loadXConfig env))
           \<and> x config = fst (loadXConfig env)
           \<and> (isXEnabled config \<longleftrightarrow> xKeysSet env = 4)
           \<and> (x config = None \<longleftrightarrow> xKeysSet env < 4)))"
proof -
  have blank: "getOptionalEnv env key = None \<longleftrightarrow>
      env key = None \<or> (\<exists>v. env key = Some v \<and> trim v = [])"
    by (cases "env key") (auto simp: getOptionalEnv_def trim_def)
  note xc = loadXConfig_cases[of env]
  have cfg: "\<exists>config. loadConfig env = (Returns config, snd (loadXConfig env))
           \<and> x config = fst (loadXConfig env)
           \<and> (isXEnabled config \<longleftrightarrow> xKeysSet env = 4)
           \<and> (x config = None \<longleftrightarrow> xKeysSet env < 4)"
    if req: "\<forall>k \<in> set requiredKeys. \<exists>v. getRequiredEnv env k = Returns v"
  proof -
    from loadConfig_returns[OF req] obtain config where
      c: "loadConfig env = (Returns config, snd (loadXConfig env))"
        "x config = fst (loadXConfig env)"
        "isXEnabled config = (fst (loadXConfig env) \<noteq> None)"
      by blast
    have "fst (loadXConfig env) \<noteq> None \<longleftrightarrow> xKeysSet env = 4"
    proof (cases "xKeysSet env = 4")
      case True
      with xc show ?thesis by auto
    next
      case False
      with xc have "xKeysSet env = 0 \<or> (0 < xKeysSet env \<and> xKeysSet env < 4)" by arith
      with xc False show ?thesis by auto
    qed
    moreover from xc have "xKeysSet env \<noteq> 4 \<longleftrightarrow> xKeysSet env < 4" by arith
    ultimately show ?thesis using c by auto
  qed
  from blank xc cfg show ?thesis by blast
qed

lemma partialXEnv_optional:
  "getOptionalEnv partialXEnv ''X_API_KEY'' = Some [0x6B]"
  "getOptionalEnv partialXEnv ''X_API_SECRET'' = None"
  "getOptionalEnv partialXEnv ''X_ACCESS_TOKEN'' = None"
  "getOptionalEnv partialXEnv ''X_ACCESS_TOKEN_SECRET'' = None"
  by (simp_all add: getOptionalEnv_def partialXEnv_def requiredEnv_def trim_def isWhiteSpace_def)

lemma partialXEnv_required:
  "\<forall>k \<in> set requiredKeys. \<exists>v. getRequiredEnv partialXEnv k = Returns v"
  by (simp add: requiredKeys_def getRequiredEnv_def partialXEnv_def requiredEnv_def trim_def
      isWhiteSpace_def)

theorem x_credentials_all_or_nothing_witness:
  "xKeysSet partialXEnv = 1
   \<and> loadXConfig partialXEnv = (None, [XKeysPartiallySet])
   \<and> (\<exists>config. loadConfig partialXEnv = (Returns config, [XKeysPartiallySet])
        \<and> x config = None \<and> \<not> isXEnabled config)"
proof -
  note t = x_credentials_all_or_nothing[where env = partialXEnv and key = "''X_API_KEY''"]
  have n: "xKeysSet partialXEnv = 1"
    by (simp add: xKeysSet_def xKeys_def partialXEnv_optional)
  from t n have lx: "loadXConfig partialXEnv = (None, [XKeysPartiallySet])"
    by simp
  from t partialXEnv_required n lx
  have "\<exists>config. loadConfig partialXEnv = (Returns config, [XKeysPartiallySet])
        \<and> x config = None \<and> \<not> isXEnabled config"
    by auto
  with n lx show ?thesis by simp
qed

section \<open>Malformed metadata\<close>

lemma wellFormed_string:
  "(truthy v \<longrightarrow> \<not> typeofString v) \<longleftrightarrow> (\<forall>s. v = Some (JString s) \<longrightarrow> s = [])"
  by (cases v rule: truthy.cases) simp_all

lemma wellFormed_array: "isArray v \<longleftrightarrow> (\<exists>vs. v = Some (JArray vs))"
  by (cases v rule: truthy.cases) simp_all

lemma wellFormed_object:
  "(truthy v \<longrightarrow> \<not> typeofObject v) \<longleftrightarrow>
   (\<forall>ps. v \<noteq> Some (JObject ps)) \<and> (\<forall>vs. v \<noteq> Some (JArray vs))"
  by (cases v rule: truthy.cases) simp_all

lemma validateMetadata_object:
  "(\<exists>md. validateMetadata (JObject props) = Returns md) \<longleftrightarrow>
     (\<exists>t. map_of props ''title'' = Some (JString t) \<and> t \<noteq> [])
     \<and> (\<exists>d. map_of props ''description'' = Some (JString d) \<and> d \<noteq> [])
     \<and> (\<exists>g. map_of props ''tags'' = Some (JArray g))
     \<and> ((\<exists>u. map_of props ''upload_status'' = Some (JObject u))
        \<or> (\<exists>u. map_of props ''upload_status'' = Some (JArray u)))"
  unfolding validateMetadata_def andThen_def
  by (auto simp: wellFormed_string wellFormed_array wellFormed_object)

lemma pairFiles_throws:
  "m \<in> set mp4Files \<Longrightarrow>
   find (\<lambda>j. stripJson (file_name j) = stripMp4 (file_name m)) jsonFiles = Some j \<Longrightarrow>
   fetchJsonContent (content (file_id j)) = Throws e \<Longrightarrow>
   \<exists>e'. pairFiles content jsonFiles mp4Files = Throws e'"
proof (induction mp4Files)
  case Nil
  then show ?case by simp
next
  case (Cons f rest)
  show ?case
  proof (cases "m = f")
    case True
    with Cons.prems show ?thesis by (simp add: andThen_def)
  next
    case False
    with Cons.prems have "m \<in> set rest" by simp
    from Cons.IH[OF this Cons.prems(2,3)] obtain e' where
      "pairFiles content jsonFiles rest = Throws e'" by blast
    then show ?thesis
      by (auto simp: andThen_def split: option.splits outcome.splits)
  qed
qed

lemma downloads_append: "downloads (xs @ ys) = downloads xs @ downloads ys"
  by (induction xs rule: downloads.induct) simp_all

lemma downloads_run:
  "downloads (trace (snd (runFilePair a config fp))) = [videoFileId fp]"
proof -
  let ?Z = "\<lambda>st::run_state. downloads (trace st) = []"
  let ?D = "\<lambda>st::run_state. downloads (trace st) = [videoFileId fp]"
  have download: "triple ?Z (call (DownloadVideo (videoFileId fp)) (drive_download a)) ?D ?D"
    by (rule triple_snd) (simp add: snd_call downloads_append)
  have share: "triple ?D (call (GetVideoShareLink (videoFileId fp)) (drive_share a)) ?D ?D"
    by (rule triple_snd) (simp add: snd_call downloads_append)
  have step: "triple ?D (uploadStep a config fp p) ?D ?D" for p
    by (rule triple_snd) (simp add: snd_uploadStep downloads_append)
  have last: "triple ?D (phase4 a config fp) ?D ?D"
    by (rule triple_snd) (simp add: phase4_state downloads_append split: outcome.splits)
  show ?thesis
    by (rule triple_run_final[where E = ?D and ?P0.0 = ?Z,
          OF download step step share step step last])
       (simp add: initialState_def)
qed

lemma downloads_processFilePair:
  "downloads (processFilePair a config fp) = [videoFileId fp]"
proof (cases "runFilePair a config fp")
  case (Pair out st)
  with downloads_run[of a config fp] have "downloads (trace st) = [videoFileId fp]"
    by simp
  with Pair show ?thesis
    by (cases out) (simp_all add: processFilePair_def downloads_append)
qed

lemma downloads_processAll:
  "downloads (processAll w config filePairs) = map videoFileId filePairs"
  by (induction filePairs) (simp_all add: downloads_append downloads_processFilePair)

lemma downloads_warnings: "downloads (map LogWarn warnings) = []"
  by (induction warnings) simp_all

lemmas feed_defs = fetchFilePairs_def andThen_def fetchJsonContent_def validateMetadata_def
  stripMp4_def stripJson_def twoVideos_def twoJsons_def goodJson_def noTitleJson_def
  statusFlag_def

lemmas config_defs = loadConfig_def loadDriveConfig_def loadYouTubeConfig_def
  loadTikTokConfig_def loadInstagramConfig_def loadMailConfig_def loadXConfig_def
  getRequiredEnv_def getOptionalEnv_def trim_def isWhiteSpace_def andThen_def requiredEnv_def

lemma requiredEnv_loads:
  "loadConfig (map_of requiredEnv) =
     (Returns
        \<lparr>drive = \<lparr>credentialsJson = [0x7B, 0x7D], pendingFolderId = [0x70],
                   doneFolderId = [0x64]\<rparr>,
         youtube = \<lparr>yt_clientId = [0x69], yt_clientSecret = [0x73], yt_refreshToken = [0x72]\<rparr>,
         tiktok = \<lparr>tt_clientKey = [0x6B], tt_clientSecret = [0x73], tt_refreshToken = [0x72]\<rparr>,
         instagram = \<lparr>ig_accessToken = [0x74], ig_accountId = [0x61]\<rparr>,
         x = None,
         mail = \<lparr>mail_user = [0x75], mail_pass = [0x70], mail_to = [0x74]\<rparr>,
         isXEnabled = False\<rparr>, [])"
  by (simp add: config_defs)

lemma malformed_feed: "fetchFilePairs malformedWorld = Throws (JsError JsonFormatTitle)"
  by (simp add: malformedWorld_def feed_defs)

lemma wellFormed_feed:
  "fetchFilePairs downloadFailsWorld =
     Returns
       [\<lparr>videoFileId = [0x31], jsonFileId = [0x32],
         videoFileName = [0x61, 0x2E, 0x6D, 0x70, 0x34],
         jsonFileName = [0x61, 0x2E, 0x6A, 0x73, 0x6F, 0x6E],
         metadata = \<lparr>title = [0x74], description = [0x64], tags = [],
           upload_status = \<lparr>us_youtube = False, us_tiktok = False, us_instagram = False,
             us_x = False\<rparr>\<rparr>\<rparr>,
        \<lparr>videoFileId = [0x33], jsonFileId = [0x34],
         videoFileName = [0x62, 0x2E, 0x6D, 0x70, 0x34],
         jsonFileName = [0x62, 0x2E, 0x6A, 0x73, 0x6F, 0x6E],
         metadata = \<lparr>title = [0x74], description = [0x64], tags = [],
           upload_status = \<lparr>us_youtube = False, us_tiktok = False, us_instagram = False,
             us_x = False\<rparr>\<rparr>\<rparr>]"
  by (simp add: downloadFailsWorld_def feed_defs)

text \<open>
  C5, as the specification states it, fails on the code: in \<open>malformedWorld\<close> the metadata
  of the first video has no title and that of the second video is well formed, yet main
  ends with the exit code 1 after the fatal-error line, and the download of no video is
  requested: the second item is never processed.
\<close>

theorem malformed_record_stops_batch:
  "validateMetadata noTitleJson = Throws (JsError JsonFormatTitle)
   \<and> validateMetadata goodJson =
       Returns \<lparr>title = [0x74], description = [0x64], tags = [],
         upload_status = \<lparr>us_youtube = False, us_tiktok = False, us_instagram = False,
           us_x = False\<rparr>\<rparr>
   \<and> main malformedWorld =
       \<lparr>exitCode = 1,
        events = [LogError (FatalError (JsError JsonFormatTitle)), ProcessExit 1]\<rparr>
   \<and> downloads (events (main malformedWorld)) = []"
proof -
  have a: "validateMetadata noTitleJson = Throws (JsError JsonFormatTitle)"
    by (simp add: feed_defs)
  have b: "validateMetadata goodJson =
       Returns \<lparr>title = [0x74], description = [0x64], tags = [],
         upload_status = \<lparr>us_youtube = False, us_tiktok = False, us_instagram = False,
           us_x = False\<rparr>\<rparr>"
    by (simp add: feed_defs)
  have c: "main malformedWorld =
       \<lparr>exitCode = 1,
        events = [LogError (FatalError (JsError JsonFormatTitle)), ProcessExit 1]\<rparr>"
    using requiredEnv_loads malformed_feed
    by (simp add: main_def fatal_def malformedWorld_def)
  from a b c show ?thesis by simp
qed

text \<open>
  C5, amended. A metadata object is accepted exactly when its title and description are
  non-empty strings, its tags an array and its upload_status an object or an array;
  otherwise \<open>fetchJsonContent\<close> throws. Such an exception, for the metadata of any paired
  video, makes \<open>fetchFilePairs\<close> throw, in Phase 2, before any item is processed; main's
  outer handler then logs the fatal error and the process exits with the code 1, with no
  item processed. Once the feed is built, main ends with the exit code 0 and requests the
  download of every file pair of the feed, in order, whatever happens while an item is
  processed: an exception of the loop body is logged with the name of the video file and
  the loop goes on.
\<close>

theorem malformed_metadata_is_fatal:
  "((\<exists>md. validateMetadata (JObject props) = Returns md) \<longleftrightarrow>
       (\<exists>t. map_of props ''title'' = Some (JString t) \<and> t \<noteq> [])
       \<and> (\<exists>d. map_of props ''description'' = Some (JString d) \<and> d \<noteq> [])
       \<and> (\<exists>g. map_of props ''tags'' = Some (JArray g))
       \<and> ((\<exists>u. map_of props ''upload_status'' = Some (JObject u))
          \<or> (\<exists>u. map_of props ''upload_status'' = Some (JArray u))))
   \<and> (list_mp4 w = Returns mp4Files \<and> list_json w = Returns jsonFiles \<and> m \<in> set mp4Files
        \<and> find (\<lambda>j. stripJson (file_name j) = stripMp4 (file_name m)) jsonFiles = Some j
        \<and> fetchJsonContent (json_content w (file_id j)) = Throws e \<longrightarrow>
      (\<exists>e'. fetchFilePairs w = Throws e'))
   \<and> (loadConfig (process_env w) = (Returns config, warnings)
        \<and> fetchFilePairs w = Throws e \<longrightarrow>
      main w =
        \<lparr>exitCode = 1,
         events = map LogWarn warnings @ [LogError (FatalError e), ProcessExit 1]\<rparr>
      \<and> downloads (events (main w)) = [])
   \<and> (loadConfig (process_env w) = (Returns config, warnings)
        \<and> fetchFilePairs w = Returns filePairs \<longrightarrow>
      exitCode (main w) = 0
      \<and> downloads (events (main w)) = map videoFileId filePairs)
   \<and> (fst (runFilePair a config fp) = Throws e \<longrightarrow>
      processFilePair a config fp =
        trace (snd (runFilePair a config fp))
        @ [LogError (FilePairFailed (videoFileName fp) e)])"
proof (intro conjI)
  show "(\<exists>md. validateMetadata (JObject props) = Returns md) \<longleftrightarrow>
       (\<exists>t. map_of props ''title'' = Some (JString t) \<and> t \<noteq> [])
       \<and> (\<exists>d. map_of props ''description'' = Some (JString d) \<and> d \<noteq> [])
       \<and> (\<exists>g. map_of props ''tags'' = Some (JArray g))
       \<and> ((\<exists>u. map_of props ''upload_status'' = Some (JObject u))
          \<or> (\<exists>u. map_of props ''upload_status'' = Some (JArray u)))"
    by (rule validateMetadata_object)
  show "list_mp4 w = Returns mp4Files \<and> list_json w = Returns jsonFiles \<and> m \<in> set mp4Files
        \<and> find (\<lambda>j. stripJson (file_name j) = stripMp4 (file_name m)) jsonFiles = Some j
        \<and> fetchJsonContent (json_content w (file_id j)) = Throws e \<longrightarrow>
      (\<exists>e'. fetchFilePairs w = Throws e')"
    using pairFiles_throws[of m mp4Files jsonFiles j "json_content w" e]
    by (auto simp: fetchFilePairs_def andThen_def)
  show "loadConfig (process_env w) = (Returns config, warnings)
        \<and> fetchFilePairs w = Throws e \<longrightarrow>
      main w =
        \<lparr>exitCode = 1,
         events = map LogWarn warnings @ [LogError (FatalError e), ProcessExit 1]\<rparr>
      \<and> downloads (events (main w)) = []"
    by (simp add: main_def fatal_def downloads_append downloads_warnings)
  show "loadConfig (process_env w) = (Returns config, warnings)
        \<and> fetchFilePairs w = Returns filePairs \<longrightarrow>
      exitCode (main w) = 0
      \<and> downloads (events (main w)) = map videoFileId filePairs"
    by (simp add: main_def downloads_append downloads_warnings downloads_processAll)
  show "fst (runFilePair a config fp) = Throws e \<longrightarrow>
      processFilePair a config fp =
        trace (snd (runFilePair a config fp))
        @ [LogError (FilePairFailed (videoFileName fp) e)]"
    by (cases "runFilePair a config fp") (simp add: processFilePair_def)
qed

theorem malformed_metadata_is_fatal_witness:
  "main malformedWorld =
     \<lparr>exitCode = 1,
      events = [LogError (FatalError (JsError JsonFormatTitle)), ProcessExit 1]\<rparr>
   \<and> exitCode (main downloadFailsWorld) = 0
   \<and> downloads (events (main downloadFailsWorld)) = [[0x31], [0x33]]"
proof -
  note t1 = malformed_metadata_is_fatal[where w = malformedWorld
      and e = "JsError JsonFormatTitle" and warnings = "[]",
      THEN conjunct2, THEN conjunct2, THEN conjunct1, rule_format]
  note t2 = malformed_metadata_is_fatal[where w = downloadFailsWorld and warnings = "[]",
      THEN conjunct2, THEN conjunct2, THEN conjunct2, THEN conjunct1, rule_format]
  have env1: "process_env malformedWorld = map_of requiredEnv"
    and env2: "process_env downloadFailsWorld = map_of requiredEnv"
    by (simp_all add: malformedWorld_def downloadFailsWorld_def)
  have a: "main malformedWorld =
     \<lparr>exitCode = 1,
      events = [LogError (FatalError (JsError JsonFormatTitle)), ProcessExit 1]\<rparr>"
    using t1[OF conjI, OF _ malformed_feed] requiredEnv_loads env1 by simp
  have b: "exitCode (main downloadFailsWorld) = 0
      \<and> downloads (events (main downloadFailsWorld)) = [[0x31], [0x33]]"
    using t2[OF conjI, OF _ wellFormed_feed] requiredEnv_loads env2 by simp
  from a b show ?thesis by simp
qed

end
